theory Spec2Isabelle
  imports Main "HOL-Library.Word"
begin

section \<open>Data of the bot (src/app.js)\<close>

text \<open>
  A JavaScript string is a sequence of 16-bit code units.  Time values are
  milliseconds since the epoch, as \<^verbatim>\<open>Date\<close> holds them; the numbers the
  program computes with (durations, counters) are integers.
\<close>

type_synonym js_string = "16 word list"

text \<open>
  \<^verbatim>\<open>session.sessionType\<close> and \<^verbatim>\<open>agent.sessionType\<close> are objects with the
  fields \<^verbatim>\<open>sessionType\<close> (the identifier compared with \<^verbatim>\<open>===\<close>),
  \<^verbatim>\<open>durationPerRound\<close> and \<^verbatim>\<open>rounds\<close>.
\<close>

record session_type =
  sessionType :: nat
  durationPerRound :: int
  rounds :: int

record session =
  sessionType :: session_type

record agent =
  name :: js_string
  sessionType :: session_type
  automationEnabled :: bool

text \<open>\<^verbatim>\<open>config.json\<close>, read once by \<^verbatim>\<open>loadConfig\<close> (lines 6-16).\<close>

record config =
  matchMode :: js_string
  agentName :: js_string
  maxGames :: int
  fee :: int

text \<open>The string literal \<^verbatim>\<open>"auto"\<close>; line 18.\<close>

definition auto_literal :: js_string where
  "auto_literal = [0x61, 0x75, 0x74, 0x6F]"

definition isAutoMatch :: "config \<Rightarrow> bool" where
  "isAutoMatch c = (matchMode c = auto_literal)"

text \<open>
  The host of the process: the loaded configuration, and the rules of its
  time zone as ECMAScript's \<^verbatim>\<open>LocalTZA(t, isUTC)\<close>: the offset of local time
  from UTC in milliseconds, at the UTC time \<open>t\<close> when \<open>isUTC\<close> is true, and for
  the local time \<open>t\<close> when it is false (a local time that a transition
  repeats or skips is read with the offset before the transition).
\<close>

record host =
  config :: config
  localTZA :: "int \<Rightarrow> bool \<Rightarrow> int"

section \<open>Strings: \<^verbatim>\<open>split("\n")\<close> and \<^verbatim>\<open>trim()\<close>\<close>

definition LF :: "16 word" where
  "LF = 0x0A"

text \<open>
  \<^verbatim>\<open>String.prototype.split\<close> with the one-unit separator \<^verbatim>\<open>"\n"\<close>: the
  substrings between successive separators; the empty string gives one empty
  substring.
\<close>

fun split_nl :: "js_string \<Rightarrow> js_string list" where
  "split_nl [] = [[]]"
| "split_nl (c # cs) =
     (if c = LF then [] # split_nl cs
      else (case split_nl cs of
              [] \<Rightarrow> [[c]]
            | l # ls \<Rightarrow> (c # l) # ls))"

text \<open>
  The code units \<^verbatim>\<open>trim()\<close> strips: ECMAScript's WhiteSpace (TAB, VT, FF,
  ZWNBSP and the space separators) and LineTerminator (LF, CR, LS, PS).
\<close>

definition isWhiteSpace :: "16 word \<Rightarrow> bool" where
  "isWhiteSpace c =
     (c = 0x09 \<or> c = 0x0A \<or> c = 0x0B \<or> c = 0x0C \<or> c = 0x0D \<or> c = 0x20 \<or>
      c = 0xA0 \<or> c = 0x1680 \<or> (0x2000 \<le> c \<and> c \<le> 0x200A) \<or>
      c = 0x2028 \<or> c = 0x2029 \<or> c = 0x202F \<or> c = 0x205F \<or> c = 0x3000 \<or>
      c = 0xFEFF)"

definition trim :: "js_string \<Rightarrow> js_string" where
  "trim s = rev (dropWhile isWhiteSpace (rev (dropWhile isWhiteSpace s)))"

text \<open>A string is truthy when it is not empty.\<close>

definition truthy_string :: "js_string \<Rightarrow> bool" where
  "truthy_string s = (s \<noteq> [])"

text \<open>Line 23: \<^verbatim>\<open>data.split("\n").filter((key) => key.trim())\<close>.\<close>

definition key_lines :: "js_string \<Rightarrow> js_string list" where
  "key_lines data = filter (\<lambda>key. truthy_string (trim key)) (split_nl data)"

text \<open>Joining lines with \<^verbatim>\<open>"\n"\<close>, the inverse the statement of the split uses.\<close>

fun join_nl :: "js_string list \<Rightarrow> js_string" where
  "join_nl [] = []"
| "join_nl [l] = l"
| "join_nl (l # ls) = l @ LF # join_nl ls"

section \<open>Dates: the next full hour (lines 35-39)\<close>

text \<open>
  The abstract operations of ECMAScript's Date objects on time values, with
  local time by the rules of the host's time zone.
\<close>

definition msPerSecond :: int where "msPerSecond = 1000"
definition msPerMinute :: int where "msPerMinute = 60000"
definition msPerHour :: int where "msPerHour = 3600000"
definition msPerDay :: int where "msPerDay = 86400000"

definition LocalTime :: "host \<Rightarrow> int \<Rightarrow> int" where
  "LocalTime h t = t + localTZA h t True"

definition UTC :: "host \<Rightarrow> int \<Rightarrow> int" where
  "UTC h t = t - localTZA h t False"

definition Day :: "int \<Rightarrow> int" where
  "Day t = t div msPerDay"

definition HourFromTime :: "int \<Rightarrow> int" where
  "HourFromTime t = (t div msPerHour) mod 24"




definition MakeTime :: "int \<Rightarrow> int \<Rightarrow> int \<Rightarrow> int \<Rightarrow> int" where
  "MakeTime hour m s ms = hour * msPerHour + m * msPerMinute + s * msPerSecond + ms"

definition MakeDate :: "int \<Rightarrow> int \<Rightarrow> int" where
  "MakeDate day time = day * msPerDay + time"

definition getHours :: "host \<Rightarrow> int \<Rightarrow> int" where
  "getHours h t = HourFromTime (LocalTime h t)"

definition setHours :: "host \<Rightarrow> int \<Rightarrow> int \<Rightarrow> int \<Rightarrow> int \<Rightarrow> int \<Rightarrow> int" where
  "setHours h t hour m s ms =
     UTC h (MakeDate (Day (LocalTime h t)) (MakeTime hour m s ms))"

text \<open>Lines 36-37.\<close>

definition nextHour :: "host \<Rightarrow> int \<Rightarrow> int" where
  "nextHour h now = setHours h now (getHours h now + 1) 0 0 0"

text \<open>Line 39.\<close>

definition remainingTime :: "host \<Rightarrow> int \<Rightarrow> int" where
  "remainingTime h now = nextHour h now - now"

text \<open>Line 42: \<^verbatim>\<open>Math.ceil(remainingTime / 60000)\<close>.\<close>

definition remainingMinutes :: "int \<Rightarrow> int" where
  "remainingMinutes r = - ((- r) div 60000)"

text \<open>The local time that lines 36-37 set: the next full hour of the local clock.\<close>

definition next_local_hour :: "host \<Rightarrow> int \<Rightarrow> int" where
  "next_local_hour h now = (LocalTime h now div msPerHour + 1) * msPerHour"

section \<open>The cool-down (lines 149-154)\<close>

fun minDuration_loop :: "int \<Rightarrow> session list \<Rightarrow> int" where
  "minDuration_loop minDuration [] = minDuration"
| "minDuration_loop minDuration (s # ss) =
     (let duration = durationPerRound (session.sessionType s) * rounds (session.sessionType s)
      in minDuration_loop (if duration < minDuration then duration else minDuration) ss)"

definition minDuration :: "session list \<Rightarrow> int" where
  "minDuration ss = minDuration_loop 60 ss"

section \<open>The collaborators and what the program does to them\<close>

text \<open>
  A thrown value.  The first four are the errors the program creates itself
  (lines 25, 93, 100 and 178); \<open>External\<close> is an error of a collaborator,
  with its message; \<open>Nullish\<close> is a thrown \<^verbatim>\<open>null\<close> or \<^verbatim>\<open>undefined\<close>;
  \<open>Unserializable\<close> is a thrown value without a message that
  \<^verbatim>\<open>JSON.stringify\<close> throws on (a circular object, a BigInt); \<open>TypeError\<close>
  is the error the engine throws where the program reads a property of
  \<^verbatim>\<open>null\<close> or \<^verbatim>\<open>undefined\<close>, or where \<^verbatim>\<open>JSON.stringify\<close> throws.
\<close>

datatype js_error =
    CreateDataTxt
  | NoAgentsAvailable
  | TargetAgentNotFound js_string
  | NoPrivateKeysFound
  | External js_string
  | Nullish
  | Unserializable
  | TypeError

text \<open>Lines 135 and 186: \<^verbatim>\<open>error.message\<close> can be read.\<close>

fun message_readable :: "js_error \<Rightarrow> bool" where
  "message_readable Nullish = False"
| "message_readable e = True"

text \<open>Line 163: \<^verbatim>\<open>error.message || JSON.stringify(error)\<close> gives a value.\<close>

fun describable :: "js_error \<Rightarrow> bool" where
  "describable Nullish = False"
| "describable Unserializable = False"
| "describable e = True"

text \<open>
  What an awaited operation settles with.  A start call resolves with a value
  of which only the truthiness is used; \<^verbatim>\<open>getAgents\<close> and \<^verbatim>\<open>getSessions\<close>
  fill \<^verbatim>\<open>wallet.agents\<close> and \<^verbatim>\<open>wallet.sessions\<close>; \<^verbatim>\<open>readFile\<close> resolves
  with the text of the file.
\<close>

datatype payload =
    Unit
  | Result bool
  | AgentList "agent list"
  | SessionList "session list"
  | FileText js_string

datatype response = Resolved payload | Rejected js_error

fun truthy :: "payload \<Rightarrow> bool" where
  "truthy Unit = False"
| "truthy (Result b) = b"
| "truthy (AgentList as) = True"
| "truthy (SessionList ss) = True"
| "truthy (FileText s) = truthy_string s"

text \<open>A response of another shape leaves the wallet's list empty.\<close>

fun agents_of :: "payload \<Rightarrow> agent list" where
  "agents_of (AgentList as) = as"
| "agents_of _ = []"

fun sessions_of :: "payload \<Rightarrow> session list" where
  "sessions_of (SessionList ss) = ss"
| "sessions_of _ = []"

text \<open>The second argument of \<^verbatim>\<open>Tools.delay\<close>, by the line of the call.\<close>

datatype delay_msg =
    WaitingNextHour
  | NoAgentsMsg
  | BeforeNextMatch
  | BeforeRetrying
  | ProcessingCompleted
  | ErrorRetryingMsg js_error
  | RestartingBot

datatype request =
    ReadFile
  | WalletConnect
  | WalletGetBalance
  | WalletLogin
  | WalletGetAgents
  | WalletGetSessions
  | WalletGetFractalInfo
  | StartMatch agent session
  | StartAutoMatch agent session int int
  | Delay int delay_msg

text \<open>
  The lines written with \<^verbatim>\<open>Tools.log\<close>, \<^verbatim>\<open>Display.log\<close> and
  \<^verbatim>\<open>console.error\<close>, by the line of the call and the values printed:
  lines 72, 43, 122, 125, 135, 137, 144, 165, 174, 181, 186 and 193.  The
  countdown of lines 46-56 only logs once per second while the wait of line 58
  is pending and touches no variable of the program; it is left out.
\<close>

datatype log_line =
    SessionLimitReached nat
  | SessionLimitWaiting nat int
  | SessionsUsed nat
  | SessionLimitReachedWaiting
  | Attempt nat nat js_error
  | FailedToStart nat
  | AlreadyAutomated
  | ErrorRetrying js_error
  | StartingBot
  | LoadedWallets nat
  | CriticalError js_error
  | FatalError js_error

datatype display_op =
    DisplayInit
  | UpdateWallet
  | UpdateAgents "agent list"
  | UpdateFractalInfo

datatype event =
    Log log_line
  | Call request
  | Display display_op
  | NewWallet js_string
  | Exit nat

text \<open>
  The variables of lines 31-32, shared by the whole process, and the trace of
  everything the process has done to its collaborators so far.
\<close>

record world =
  sessionCount :: nat
  lastSessionTime :: "int option"
  trace :: "event list"

definition emit :: "event \<Rightarrow> world \<Rightarrow> world" where
  "emit e w = w\<lparr>trace := trace w @ [e]\<rparr>"

section \<open>\<^verbatim>\<open>loadKeys\<close> (lines 20-29)\<close>

text \<open>
  The argument is what \<^verbatim>\<open>fs.readFile("./data.txt", "utf8")\<close> settled with.
  A rejection, or a value that has no \<^verbatim>\<open>split\<close>, ends in the \<^verbatim>\<open>catch\<close>.
\<close>

definition loadKeys :: "response \<Rightarrow> js_error + js_string list" where
  "loadKeys r =
     (case r of
        Resolved (FileText data) \<Rightarrow> Inr (key_lines data)
      | _ \<Rightarrow> Inl CreateDataTxt)"

section \<open>\<^verbatim>\<open>handleSessionLimit\<close> (lines 34-64)\<close>

text \<open>
  Lines 35-58, up to the \<^verbatim>\<open>await\<close>: whether the function waits, and the
  world with the log line and the call of \<^verbatim>\<open>Tools.delay\<close> when it does.
\<close>

definition handleSessionLimit_begin :: "host \<Rightarrow> int \<Rightarrow> world \<Rightarrow> bool \<times> world" where
  "handleSessionLimit_begin h now w =
     (let r = remainingTime h now in
      if r > 0 then
        (True,
         emit (Call (Delay r WaitingNextHour))
           (emit (Log (SessionLimitWaiting (sessionCount w) (remainingMinutes r))) w))
      else (False, w))"

text \<open>Lines 62-63, reached when the wait of line 58 has resolved or was not needed.\<close>

definition handleSessionLimit_end :: "world \<Rightarrow> world" where
  "handleSessionLimit_end w = w\<lparr>sessionCount := 0, lastSessionTime := None\<rparr>"

section \<open>\<^verbatim>\<open>runWallet\<close> (lines 66-169)\<close>

text \<open>
  \<^verbatim>\<open>runWallet\<close> is an async function: it runs until an \<^verbatim>\<open>await\<close> that an
  external operation has to settle, and goes on from there when the
  operation settles.  A control point names that \<^verbatim>\<open>await\<close> and holds the
  local variables that are live there.
\<close>

record loop_vars =
  sessions :: "session list"
  targetAgent :: agent
  session :: session
  rest :: "session list"
  retryCount :: nat

datatype pc =
    GateReset
  | Connect
  | GetBalance
  | Login
  | GetAgents
  | GetSessions "agent list"
  | GetFractalInfo "agent list" "session list"
  | NoAgentsDelay
  | Start loop_vars
  | LimitReset loop_vars
  | NextMatchDelay loop_vars
  | RetryDelay loop_vars
  | Cooldown
  | ErrorDelay

text \<open>
  \<^verbatim>\<open>return await runWallet(key)\<close> stands at lines 74, 127, 161 and 167.  The
  caller stays suspended at that line; should the inner call reject, the
  caller goes on in the \<^verbatim>\<open>catch\<close> that encloses the line.
\<close>

datatype frame =
    Line74
  | Line127 loop_vars
  | Line161
  | Line167

datatype status = Awaiting pc | Rejected_with js_error

record thread =
  key :: js_string
  status :: status
  stack :: "frame list"

definition maxRetries :: nat where
  "maxRetries = 3"

text \<open>Lines 112-116.\<close>

definition start_request :: "host \<Rightarrow> agent \<Rightarrow> session \<Rightarrow> request" where
  "start_request h a s =
     (if isAutoMatch (config h)
      then StartAutoMatch a s (maxGames (config h)) (fee (config h))
      else StartMatch a s)"

text \<open>
  Lines 103-161 from the head of the \<^verbatim>\<open>for\<close> loop, with the sessions the
  loop has not visited yet: up to the first call of a start function (lines
  106-116, with \<^verbatim>\<open>retryCount = 0\<close>), or through lines 149-159 to the
  cool-down.
\<close>

fun for_sessions ::
  "host \<Rightarrow> js_string \<Rightarrow> frame list \<Rightarrow> session list \<Rightarrow> agent \<Rightarrow> session list \<Rightarrow> world
    \<Rightarrow> thread \<times> world" where
  "for_sessions h k stk all ta [] w =
     (\<lparr>key = k, status = Awaiting Cooldown, stack = stk\<rparr>,
      emit (Call (Delay (minDuration all * 1000) ProcessingCompleted)) w)"
| "for_sessions h k stk all ta (s # ss) w =
     (if session_type.sessionType (agent.sessionType ta)
           = session_type.sessionType (session.sessionType s) then
        if \<not> automationEnabled ta then
          if 0 < maxRetries then
            (\<lparr>key = k,
              status = Awaiting (Start \<lparr>sessions = all, targetAgent = ta, session = s,
                                       rest = ss, retryCount = 0\<rparr>),
              stack = stk\<rparr>,
             emit (Call (start_request h ta s)) w)
          else for_sessions h k stk all ta ss w
        else for_sessions h k stk all ta ss (emit (Log AlreadyAutomated) w)
      else for_sessions h k stk all ta ss w)"

text \<open>Line 109, after an attempt that neither broke out of the loop nor returned.\<close>

definition while_retry :: "host \<Rightarrow> js_string \<Rightarrow> frame list \<Rightarrow> loop_vars \<Rightarrow> world \<Rightarrow> thread \<times> world" where
  "while_retry h k stk lv w =
     (if retryCount lv < maxRetries then
        (\<lparr>key = k, status = Awaiting (Start lv), stack = stk\<rparr>,
         emit (Call (start_request h (targetAgent lv) (session lv))) w)
      else for_sessions h k stk (sessions lv) (targetAgent lv) (rest lv) w)"

text \<open>
  Where in \<^verbatim>\<open>runWallet\<close> an error arises: in the \<^verbatim>\<open>try\<close> of the retry loop
  (lines 110-132), elsewhere in the outer \<^verbatim>\<open>try\<close> (lines 69-161), or in the
  outer \<^verbatim>\<open>catch\<close> (lines 162-168).  A suspended caller is in the region of
  its line.
\<close>

datatype region = OuterTry | RetryTry loop_vars | OuterCatch

fun region_of :: "frame \<Rightarrow> region" where
  "region_of Line74 = OuterTry"
| "region_of (Line127 lv) = RetryTry lv"
| "region_of Line161 = OuterTry"
| "region_of Line167 = OuterCatch"

text \<open>
  The error \<open>e\<close> arises in a region of the call of \<^verbatim>\<open>runWallet\<close> whose
  suspended callers are \<open>stk\<close>.

  In the \<^verbatim>\<open>try\<close> of the retry loop the \<^verbatim>\<open>catch\<close> of lines 133-141 runs:
  it increments \<^verbatim>\<open>retryCount\<close> and reads \<^verbatim>\<open>error.message\<close> for its log
  line; if that throws, the \<open>TypeError\<close> arises in the outer \<^verbatim>\<open>try\<close>.
  Otherwise it logs, and gives up (line 138) or awaits the wait of line 140.

  In the outer \<^verbatim>\<open>try\<close> the \<^verbatim>\<open>catch\<close> of lines 162-168 runs: line 163
  computes the message; if that throws, the \<open>TypeError\<close> arises in the outer
  \<^verbatim>\<open>catch\<close>.  Otherwise it logs and awaits the wait of line 166.

  In the outer \<^verbatim>\<open>catch\<close> nothing catches: the call rejects, and the error
  arises in the innermost suspended caller, at its line; with no caller left
  the promise of the wallet is rejected.
\<close>

function throw_in ::
  "host \<Rightarrow> js_string \<Rightarrow> region \<Rightarrow> frame list \<Rightarrow> js_error \<Rightarrow> world \<Rightarrow> thread \<times> world" where
  "throw_in h k (RetryTry lv) stk e w =
     (let lv' = lv\<lparr>retryCount := retryCount lv + 1\<rparr> in
      if message_readable e then
        (let w1 = emit (Log (Attempt (retryCount lv') maxRetries e)) w in
         if retryCount lv' \<ge> maxRetries then
           for_sessions h k stk (sessions lv') (targetAgent lv') (rest lv')
             (emit (Log (FailedToStart maxRetries)) w1)
         else
           (\<lparr>key = k, status = Awaiting (RetryDelay lv'), stack = stk\<rparr>,
            emit (Call (Delay 10000 BeforeRetrying)) w1))
      else throw_in h k OuterTry stk TypeError w)"
| "throw_in h k OuterTry stk e w =
     (if describable e then
        (\<lparr>key = k, status = Awaiting ErrorDelay, stack = stk\<rparr>,
         emit (Call (Delay 10000 (ErrorRetryingMsg e))) (emit (Log (ErrorRetrying e)) w))
      else throw_in h k OuterCatch stk TypeError w)"
| "throw_in h k OuterCatch [] e w = (\<lparr>key = k, status = Rejected_with e, stack = []\<rparr>, w)"
| "throw_in h k OuterCatch (f # stk) e w = throw_in h k (region_of f) stk e w"
  by pat_completeness auto
termination
  by (relation "measure (\<lambda>(h, k, r, stk, e, w).
          3 * length stk + (case r of OuterCatch \<Rightarrow> 0 | OuterTry \<Rightarrow> 1 | RetryTry lv \<Rightarrow> 2))")
     (auto split: region.splits)

declare throw_in.simps [simp del]

text \<open>Lines 133-141: the \<^verbatim>\<open>catch\<close> of the retry loop, up to its \<^verbatim>\<open>await\<close>.\<close>

definition inner_catch ::
  "host \<Rightarrow> js_string \<Rightarrow> frame list \<Rightarrow> loop_vars \<Rightarrow> js_error \<Rightarrow> world \<Rightarrow> thread \<times> world" where
  "inner_catch h k stk lv e w = throw_in h k (RetryTry lv) stk e w"

text \<open>Lines 162-166: the outer \<^verbatim>\<open>catch\<close>, up to its \<^verbatim>\<open>await\<close>.\<close>

definition outer_catch ::
  "host \<Rightarrow> js_string \<Rightarrow> frame list \<Rightarrow> js_error \<Rightarrow> world \<Rightarrow> thread \<times> world" where
  "outer_catch h k stk e w = throw_in h k OuterTry stk e w"

text \<open>A call of \<^verbatim>\<open>runWallet\<close> has rejected with \<open>e\<close>.\<close>

definition unwind :: "host \<Rightarrow> js_string \<Rightarrow> js_error \<Rightarrow> frame list \<Rightarrow> world \<Rightarrow> thread \<times> world" where
  "unwind h k e stk w = throw_in h k OuterCatch stk e w"

text \<open>
  Lines 67-77: a call of \<^verbatim>\<open>runWallet(key)\<close>, up to its first \<^verbatim>\<open>await\<close> of
  an external operation.  The stack holds the suspended callers.  When
  \<^verbatim>\<open>handleSessionLimit\<close> finds nothing to wait for (line 41) it resets the
  variables and returns; no external operation settles between that and the
  call of line 74, which goes on to its own first \<^verbatim>\<open>await\<close>.
\<close>

function runWallet :: "host \<Rightarrow> int \<Rightarrow> js_string \<Rightarrow> frame list \<Rightarrow> world \<Rightarrow> thread \<times> world" where
  "runWallet h now k stk w0 =
     (let w = emit (NewWallet k) w0 in
      if sessionCount w \<ge> 6 then
        (let w1 = emit (Log (SessionLimitReached (sessionCount w))) w;
             b = handleSessionLimit_begin h now w1
         in if fst b then (\<lparr>key = k, status = Awaiting GateReset, stack = stk\<rparr>, snd b)
            else runWallet h now k (Line74 # stk) (handleSessionLimit_end (snd b)))
      else
        (\<lparr>key = k, status = Awaiting Connect, stack = stk\<rparr>, emit (Call WalletConnect) w))"
  by pat_completeness auto
termination
  by (relation "measure (\<lambda>(h, now, k, stk, w). if sessionCount w \<ge> 6 then 1 else 0)")
     (auto simp: emit_def handleSessionLimit_end_def)

declare runWallet.simps [simp del]

text \<open>Lines 84-101, after the six calls of lines 77-82 have resolved.\<close>

definition after_hydrate ::
  "host \<Rightarrow> js_string \<Rightarrow> frame list \<Rightarrow> agent list \<Rightarrow> session list \<Rightarrow> world \<Rightarrow> thread \<times> world" where
  "after_hydrate h k stk agents ss w0 =
     (let w = emit (Display UpdateFractalInfo)
                (emit (Display (UpdateAgents agents)) (emit (Display UpdateWallet) w0))
      in if length agents = 0 then
           (\<lparr>key = k, status = Awaiting NoAgentsDelay, stack = stk\<rparr>,
            emit (Call (Delay 10000 NoAgentsMsg)) w)
         else
           (case find (\<lambda>a. name a = agentName (config h)) agents of
              None \<Rightarrow> outer_catch h k stk (TargetAgentNotFound (agentName (config h))) w
            | Some ta \<Rightarrow> for_sessions h k stk ss ta ss w))"

text \<open>
  Lines 118-131, after a start function has resolved with a truthy value;
  line 127 calls \<^verbatim>\<open>runWallet\<close> at once when \<^verbatim>\<open>handleSessionLimit\<close> did not
  wait.
\<close>

definition started :: "host \<Rightarrow> int \<Rightarrow> js_string \<Rightarrow> frame list \<Rightarrow> loop_vars \<Rightarrow> world \<Rightarrow> thread \<times> world" where
  "started h now k stk lv w0 =
     (let w = w0\<lparr>sessionCount := sessionCount w0 + 1, lastSessionTime := Some now\<rparr>;
          w1 = emit (Log (SessionsUsed (sessionCount w))) w
      in if sessionCount w1 \<ge> 6 then
           (let w2 = emit (Log SessionLimitReachedWaiting) w1;
                b = handleSessionLimit_begin h now w2
            in if fst b then (\<lparr>key = k, status = Awaiting (LimitReset lv), stack = stk\<rparr>, snd b)
               else runWallet h now k (Line127 lv # stk) (handleSessionLimit_end (snd b)))
         else
           (\<lparr>key = k, status = Awaiting (NextMatchDelay lv), stack = stk\<rparr>,
            emit (Call (Delay 2000 BeforeNextMatch)) w1))"

text \<open>
  The awaited operation of control point \<open>p\<close> has settled with \<open>r\<close> at time
  \<open>now\<close>: the function goes on to its next \<^verbatim>\<open>await\<close>.
\<close>

fun resume ::
  "host \<Rightarrow> int \<Rightarrow> response \<Rightarrow> js_string \<Rightarrow> frame list \<Rightarrow> pc \<Rightarrow> world \<Rightarrow> thread \<times> world" where
  "resume h now (Resolved v) k stk GateReset w =
     runWallet h now k (Line74 # stk) (handleSessionLimit_end w)"
| "resume h now (Resolved v) k stk Connect w =
     (\<lparr>key = k, status = Awaiting GetBalance, stack = stk\<rparr>, emit (Call WalletGetBalance) w)"
| "resume h now (Resolved v) k stk GetBalance w =
     (\<lparr>key = k, status = Awaiting Login, stack = stk\<rparr>, emit (Call WalletLogin) w)"
| "resume h now (Resolved v) k stk Login w =
     (\<lparr>key = k, status = Awaiting GetAgents, stack = stk\<rparr>, emit (Call WalletGetAgents) w)"
| "resume h now (Resolved v) k stk GetAgents w =
     (\<lparr>key = k, status = Awaiting (GetSessions (agents_of v)), stack = stk\<rparr>,
      emit (Call WalletGetSessions) w)"
| "resume h now (Resolved v) k stk (GetSessions agents) w =
     (\<lparr>key = k, status = Awaiting (GetFractalInfo agents (sessions_of v)), stack = stk\<rparr>,
      emit (Call WalletGetFractalInfo) w)"
| "resume h now (Resolved v) k stk (GetFractalInfo agents ss) w =
     after_hydrate h k stk agents ss w"
| "resume h now (Resolved v) k stk NoAgentsDelay w = outer_catch h k stk NoAgentsAvailable w"
| "resume h now (Resolved v) k stk (Start lv) w =
     (if truthy v then started h now k stk lv w else while_retry h k stk lv w)"
| "resume h now (Resolved v) k stk (LimitReset lv) w =
     runWallet h now k (Line127 lv # stk) (handleSessionLimit_end w)"
| "resume h now (Resolved v) k stk (NextMatchDelay lv) w =
     for_sessions h k stk (sessions lv) (targetAgent lv) (rest lv) w"
| "resume h now (Resolved v) k stk (RetryDelay lv) w = while_retry h k stk lv w"
| "resume h now (Resolved v) k stk Cooldown w = runWallet h now k (Line161 # stk) w"
| "resume h now (Resolved v) k stk ErrorDelay w = runWallet h now k (Line167 # stk) w"
| "resume h now (Rejected e) k stk (Start lv) w = inner_catch h k stk lv e w"
| "resume h now (Rejected e) k stk (LimitReset lv) w = inner_catch h k stk lv e w"
| "resume h now (Rejected e) k stk (NextMatchDelay lv) w = inner_catch h k stk lv e w"
| "resume h now (Rejected e) k stk ErrorDelay w = unwind h k e stk w"
| "resume h now (Rejected e) k stk p w = outer_catch h k stk e w"

text \<open>One wallet: an operation settles, and a schedule of them.\<close>

definition step :: "host \<Rightarrow> int \<Rightarrow> response \<Rightarrow> thread \<times> world \<Rightarrow> thread \<times> world" where
  "step h now r tw =
     (case status (fst tw) of
        Awaiting p \<Rightarrow> resume h now r (key (fst tw)) (stack (fst tw)) p (snd tw)
      | Rejected_with e \<Rightarrow> tw)"

fun run :: "host \<Rightarrow> (int \<times> response) list \<Rightarrow> thread \<times> world \<Rightarrow> thread \<times> world" where
  "run h [] tw = tw"
| "run h (x # xs) tw = run h xs (step h (fst x) (snd x) tw)"

section \<open>\<^verbatim>\<open>startBot\<close> and the process (lines 171-195)\<close>

text \<open>
  \<^verbatim>\<open>startBot\<close> awaits the file of keys (inside \<^verbatim>\<open>loadKeys\<close>, line 176), the
  promises of all wallets (line 184) and the delay of its \<^verbatim>\<open>catch\<close> (line
  187).  The process has ended once \<^verbatim>\<open>process.exit\<close> was called.
\<close>

datatype bot_pc = ReadKeys | AwaitAll | RestartDelay

datatype bot_status = Running bot_pc | Exited nat

text \<open>
  The process: the shared world, \<^verbatim>\<open>startBot\<close>, and every call of
  \<^verbatim>\<open>runWallet\<close> that line 183 has made, in the order of the calls.  The
  wallets from index \<open>generation\<close> on are those of the latest line 183, whose
  promises line 184 awaits.
\<close>

record system =
  world :: world
  supervisor :: bot_status
  wallets :: "thread list"
  generation :: nat

text \<open>Lines 173-176, up to the \<^verbatim>\<open>await\<close> of the file.\<close>

definition startBot :: "system \<Rightarrow> system" where
  "startBot s =
     s\<lparr>supervisor := Running ReadKeys,
       world := emit (Call ReadFile) (emit (Log StartingBot) (emit (Display DisplayInit) (world s)))\<rparr>"

text \<open>Lines 192-195: \<^verbatim>\<open>startBot\<close> has rejected.\<close>

definition fatal :: "js_error \<Rightarrow> system \<Rightarrow> system" where
  "fatal e s = s\<lparr>supervisor := Exited 1, world := emit (Exit 1) (emit (Log (FatalError e)) (world s))\<rparr>"

text \<open>
  Lines 185-187: the \<^verbatim>\<open>catch\<close> of \<^verbatim>\<open>startBot\<close>, up to its \<^verbatim>\<open>await\<close>.  Line
  186 reads \<^verbatim>\<open>error.message\<close>; if that throws, \<^verbatim>\<open>startBot\<close> rejects.
\<close>

definition startBot_catch :: "js_error \<Rightarrow> system \<Rightarrow> system" where
  "startBot_catch e s =
     (if message_readable e then
        s\<lparr>supervisor := Running RestartDelay,
          world := emit (Call (Delay 5000 RestartingBot))
                     (emit (Log (CriticalError e)) (world s))\<rparr>
      else fatal TypeError s)"

text \<open>Line 183: \<^verbatim>\<open>keys.map((key) => runWallet(key))\<close>, each call up to its first \<^verbatim>\<open>await\<close>.\<close>

fun launch :: "host \<Rightarrow> int \<Rightarrow> js_string list \<Rightarrow> thread list \<times> world \<Rightarrow> thread list \<times> world" where
  "launch h now [] tw = tw"
| "launch h now (k # ks) tw =
     (let r = runWallet h now k [] (snd tw) in launch h now ks (fst tw @ [fst r], snd r))"

text \<open>Lines 176-184, after the file of keys has settled with \<open>r\<close>.\<close>

definition startBot_loaded :: "host \<Rightarrow> int \<Rightarrow> response \<Rightarrow> system \<Rightarrow> system" where
  "startBot_loaded h now r s =
     (case loadKeys r of
        Inl e \<Rightarrow> startBot_catch e s
      | Inr keys \<Rightarrow>
          if length keys = 0 then startBot_catch NoPrivateKeysFound s
          else
            (let w = emit (Log (LoadedWallets (length keys))) (world s);
                 l = launch h now keys (wallets s, w)
             in s\<lparr>world := snd l, wallets := fst l, generation := length (wallets s),
                  supervisor := Running AwaitAll\<rparr>))"

text \<open>
  An operation settles: the one \<^verbatim>\<open>startBot\<close> awaits, or the one the wallet
  with index \<open>i\<close> awaits.  When a wallet of line 184 rejects while
  \<^verbatim>\<open>startBot\<close> awaits them, \<^verbatim>\<open>Promise.all\<close> rejects and \<^verbatim>\<open>startBot\<close> goes on in
  its \<^verbatim>\<open>catch\<close>.  The call of line 188 stands in the \<^verbatim>\<open>catch\<close>: when the
  delay of line 187 rejects, every pending \<^verbatim>\<open>startBot\<close> rejects.
\<close>

datatype target = Bot | Wallet nat

definition wallet_step :: "host \<Rightarrow> nat \<Rightarrow> int \<Rightarrow> response \<Rightarrow> system \<Rightarrow> system" where
  "wallet_step h i now r s =
     (if i < length (wallets s) then
        (let t = wallets s ! i;
             tw = step h now r (t, world s);
             s' = s\<lparr>world := snd tw, wallets := (wallets s)[i := fst tw]\<rparr>
         in case (status t, status (fst tw)) of
              (Awaiting p, Rejected_with e) \<Rightarrow>
                if supervisor s = Running AwaitAll \<and> generation s \<le> i then startBot_catch e s' else s'
            | _ \<Rightarrow> s')
      else s)"

definition bot_step :: "host \<Rightarrow> bot_pc \<Rightarrow> int \<Rightarrow> response \<Rightarrow> system \<Rightarrow> system" where
  "bot_step h p now r s =
     (case p of
        ReadKeys \<Rightarrow> startBot_loaded h now r s
      | AwaitAll \<Rightarrow> s
      | RestartDelay \<Rightarrow> (case r of Resolved v \<Rightarrow> startBot s | Rejected e \<Rightarrow> fatal e s))"

definition sys_step :: "host \<Rightarrow> target \<Rightarrow> int \<Rightarrow> response \<Rightarrow> system \<Rightarrow> system" where
  "sys_step h tg now r s =
     (case supervisor s of
        Exited c \<Rightarrow> s
      | Running p \<Rightarrow>
          (case tg of
             Bot \<Rightarrow> bot_step h p now r s
           | Wallet i \<Rightarrow> wallet_step h i now r s))"

fun sys_run :: "host \<Rightarrow> (target \<times> int \<times> response) list \<Rightarrow> system \<Rightarrow> system" where
  "sys_run h [] s = s"
| "sys_run h (x # xs) s = sys_run h xs (sys_step h (fst x) (fst (snd x)) (snd (snd x)) s)"

text \<open>The process when the module is loaded: line 31, line 32, and the call of line 192.\<close>

definition boot :: system where
  "boot =
     startBot \<lparr>world = \<lparr>sessionCount = 0, lastSessionTime = None, trace = []\<rparr>,
              supervisor = Running ReadKeys, wallets = [], generation = 0\<rparr>"

section \<open>Schedules and observations of the retry loop\<close>

text \<open>
  A start function that throws: each entry is the time and the error of a
  rejected start call, and the time at which the backoff wait that follows
  it resolves.
\<close>

definition backoff_schedule :: "(int \<times> js_error \<times> int) list \<Rightarrow> (int \<times> response) list" where
  "backoff_schedule fs =
     concat (map (\<lambda>f. [(fst f, Rejected (fst (snd f))), (snd (snd f), Resolved Unit)]) fs)"

text \<open>The calls of \<^verbatim>\<open>startMatch\<close> and \<^verbatim>\<open>startAutoMatch\<close>, and the waits of line 140, in a trace.\<close>

fun is_start_call :: "event \<Rightarrow> bool" where
  "is_start_call (Call (StartMatch a s)) = True"
| "is_start_call (Call (StartAutoMatch a s m f)) = True"
| "is_start_call e = False"

fun is_backoff_wait :: "event \<Rightarrow> bool" where
  "is_backoff_wait (Call (Delay ms BeforeRetrying)) = True"
| "is_backoff_wait e = False"

section \<open>Runs of one wallet in which no reset wait is interrupted\<close>





section \<open>Example values\<close>

definition host0 :: host where
  "host0 = \<lparr>config = \<lparr>matchMode = [], agentName = [0x41], maxGames = 1, fee = 0\<rparr>,
            localTZA = (\<lambda>t isUTC. 0)\<rparr>"

text \<open>
  A host in a zone like America/New\_York around the end of daylight-saving
  time on 2024-11-03: four hours behind UTC until 06:00 UTC, five hours
  behind from then on; the local hour from 01:00 to 02:00 occurs twice and is
  read as the first occurrence.
\<close>

definition fall_back :: int where
  "fall_back = 1730613600000"

definition eastern :: host where
  "eastern =
     \<lparr>config = config host0,
      localTZA = (\<lambda>t isUTC.
        if isUTC then (if t < fall_back then - 14400000 else - 18000000)
        else (if t < fall_back - 14400000 then - 14400000 else - 18000000))\<rparr>"

text \<open>
  A host in a zone whose clocks go back two hours (as Antarctica/Troll's do),
  on 2024-10-27 at 01:00 UTC: two hours ahead of UTC before, at UTC after;
  the local hours from 01:00 to 03:00 occur twice and are read as the first
  occurrence.
\<close>

definition two_hours_back :: int where
  "two_hours_back = 1729990800000"

definition troll :: host where
  "troll =
     \<lparr>config = config host0,
      localTZA = (\<lambda>t isUTC.
        if isUTC then (if t < two_hours_back then 7200000 else 0)
        else (if t < two_hours_back + 7200000 then 7200000 else 0))\<rparr>"

definition mk_session :: "nat \<Rightarrow> int \<Rightarrow> int \<Rightarrow> session" where
  "mk_session ty d n =
     \<lparr>session.sessionType = \<lparr>session_type.sessionType = ty, durationPerRound = d, rounds = n\<rparr>\<rparr>"

definition mk_agent :: "js_string \<Rightarrow> nat \<Rightarrow> bool \<Rightarrow> agent" where
  "mk_agent n ty a =
     \<lparr>name = n,
      agent.sessionType = \<lparr>session_type.sessionType = ty, durationPerRound = 0, rounds = 0\<rparr>,
      automationEnabled = a\<rparr>"

definition world0 :: "nat \<Rightarrow> world" where
  "world0 c = \<lparr>sessionCount = c, lastSessionTime = None, trace = []\<rparr>"

definition lv0 :: loop_vars where
  "lv0 = \<lparr>sessions = [mk_session 1 10 2], targetAgent = mk_agent [0x41] 1 False,
          session = mk_session 1 10 2, rest = [], retryCount = 0\<rparr>"

text \<open>
  A run of the process with two keys: the first wallet finds an agent without
  automation and six sessions of its type, and five start calls resolve with
  a truthy value; the second wallet finds an automated agent and goes to its
  cool-down.
\<close>

definition two_wallets :: "(target \<times> int \<times> response) list" where
  "two_wallets =
     [(Bot, 0, Resolved (FileText [0x41, 0x0A, 0x42])),
      (Wallet 0, 1, Resolved Unit), (Wallet 0, 2, Resolved Unit), (Wallet 0, 3, Resolved Unit),
      (Wallet 0, 4, Resolved (AgentList [mk_agent [0x41] 1 False])),
      (Wallet 0, 5, Resolved (SessionList (replicate 6 (mk_session 1 10 2)))),
      (Wallet 0, 6, Resolved Unit),
      (Wallet 0, 7, Resolved (Result True)), (Wallet 0, 8, Resolved Unit),
      (Wallet 0, 9, Resolved (Result True)), (Wallet 0, 10, Resolved Unit),
      (Wallet 0, 11, Resolved (Result True)), (Wallet 0, 12, Resolved Unit),
      (Wallet 0, 13, Resolved (Result True)), (Wallet 0, 14, Resolved Unit),
      (Wallet 0, 15, Resolved (Result True)), (Wallet 0, 16, Resolved Unit),
      (Wallet 1, 17, Resolved Unit), (Wallet 1, 18, Resolved Unit), (Wallet 1, 19, Resolved Unit),
      (Wallet 1, 20, Resolved (AgentList [mk_agent [0x41] 1 True])),
      (Wallet 1, 21, Resolved (SessionList [mk_session 1 10 2])),
      (Wallet 1, 22, Resolved Unit)]"



text \<open>
  As \<open>two_wallets\<close>, but the second wallet finds an agent without automation
  too, and awaits its first start call.
\<close>

definition two_starting :: "(target \<times> int \<times> response) list" where
  "two_starting =
     [(Bot, 0, Resolved (FileText [0x41, 0x0A, 0x42])),
      (Wallet 0, 1, Resolved Unit), (Wallet 0, 2, Resolved Unit), (Wallet 0, 3, Resolved Unit),
      (Wallet 0, 4, Resolved (AgentList [mk_agent [0x41] 1 False])),
      (Wallet 0, 5, Resolved (SessionList (replicate 6 (mk_session 1 10 2)))),
      (Wallet 0, 6, Resolved Unit),
      (Wallet 0, 7, Resolved (Result True)), (Wallet 0, 8, Resolved Unit),
      (Wallet 0, 9, Resolved (Result True)), (Wallet 0, 10, Resolved Unit),
      (Wallet 0, 11, Resolved (Result True)), (Wallet 0, 12, Resolved Unit),
      (Wallet 0, 13, Resolved (Result True)), (Wallet 0, 14, Resolved Unit),
      (Wallet 0, 15, Resolved (Result True)), (Wallet 0, 16, Resolved Unit),
      (Wallet 1, 17, Resolved Unit), (Wallet 1, 18, Resolved Unit), (Wallet 1, 19, Resolved Unit),
      (Wallet 1, 20, Resolved (AgentList [mk_agent [0x41] 1 False])),
      (Wallet 1, 21, Resolved (SessionList [mk_session 1 10 2])),
      (Wallet 1, 22, Resolved Unit)]"

section \<open>The key source\<close>

lemma split_nl_not_Nil: "split_nl s \<noteq> []"
  by (induction s) (auto split: list.splits)

lemma join_nl_split_nl: "join_nl (split_nl s) = s"
proof (induction s)
  case Nil
  show ?case by simp
next
  case (Cons c cs)
  obtain l ls where e: "split_nl cs = l # ls"
    using split_nl_not_Nil[of cs] by (cases "split_nl cs") auto
  show ?case using Cons e by (cases ls) auto
qed

lemma split_nl_no_LF: "l \<in> set (split_nl s) \<Longrightarrow> LF \<notin> set l"
  by (induction s arbitrary: l) (auto split: list.splits if_splits)

lemma split_nl_join_nl:
  "\<forall>l\<in>set ls. LF \<notin> set l \<Longrightarrow> ls \<noteq> [] \<Longrightarrow> split_nl (join_nl ls) = ls"
proof (induction ls rule: join_nl.induct)
  case 1
  then show ?case by simp
next
  case (2 l)
  then show ?case by (induction l) (auto split: list.splits)
next
  case (3 l v va)
  then show ?case by (induction l) (auto split: list.splits)
qed

lemma dropWhile_all_iff: "(\<forall>x\<in>set (dropWhile P s). P x) \<longleftrightarrow> dropWhile P s = []"
proof
  assume a: "\<forall>x\<in>set (dropWhile P s). P x"
  show "dropWhile P s = []"
  proof (rule ccontr)
    assume n: "dropWhile P s \<noteq> []"
    then have "\<not> P (hd (dropWhile P s))" by (rule hd_dropWhile)
    moreover have "hd (dropWhile P s) \<in> set (dropWhile P s)" using n by simp
    ultimately show False using a by blast
  qed
qed (auto dest: set_dropWhileD)

lemma trim_empty_iff: "trim s = [] \<longleftrightarrow> list_all isWhiteSpace s"
  unfolding trim_def
  by (simp add: dropWhile_all_iff) (simp add: dropWhile_eq_Nil_conv list_all_iff)

text \<open>
  C10.  For every content of the key source, \<^verbatim>\<open>loadKeys\<close> returns the lines of
  the content, split at the newlines, without the lines that are empty or
  hold white space only, in the order of the file and with the text of each
  kept line as it is (not trimmed).  The lines are the newline-split of the
  content: joined with newlines they give the content back, none holds a
  newline, and they are the only such list.
\<close>

theorem loadKeys_lines:
  "loadKeys (Resolved (FileText data))
     = Inr (filter (\<lambda>l. \<not> list_all isWhiteSpace l) (split_nl data))
   \<and> join_nl (split_nl data) = data
   \<and> (\<forall>l\<in>set (split_nl data). LF \<notin> set l)
   \<and> (\<forall>ls. ls \<noteq> [] \<and> (\<forall>l\<in>set ls. LF \<notin> set l) \<and> join_nl ls = data
         \<longrightarrow> split_nl data = ls)"
proof -
  have "loadKeys (Resolved (FileText data))
          = Inr (filter (\<lambda>l. \<not> list_all isWhiteSpace l) (split_nl data))"
    by (simp add: loadKeys_def key_lines_def truthy_string_def trim_empty_iff)
  moreover have "\<forall>l\<in>set (split_nl data). LF \<notin> set l"
    using split_nl_no_LF by blast
  moreover have "\<forall>ls. ls \<noteq> [] \<and> (\<forall>l\<in>set ls. LF \<notin> set l) \<and> join_nl ls = data
                   \<longrightarrow> split_nl data = ls"
    using split_nl_join_nl by blast
  ultimately show ?thesis
    by (simp add: join_nl_split_nl)
qed

theorem loadKeys_lines_witness:
  "loadKeys (Resolved (FileText [0x61, 0x0A, 0x0A, 0x20, 0x0A, 0x62, 0x20]))
     = Inr [[0x61], [0x62, 0x20]]
   \<and> split_nl [0x61, 0x0A, 0x0A, 0x20, 0x0A, 0x62, 0x20] = [[0x61], [], [0x20], [0x62, 0x20]]"
proof -
  let ?data = "[0x61, 0x0A, 0x0A, 0x20, 0x0A, 0x62, 0x20] :: js_string"
  let ?ls = "[[0x61], [], [0x20], [0x62, 0x20]] :: js_string list"
  note t = loadKeys_lines [of ?data]
  have "?ls \<noteq> [] \<and> (\<forall>l\<in>set ?ls. LF \<notin> set l) \<and> join_nl ?ls = ?data"
    by (simp add: LF_def)
  with t have s: "split_nl ?data = ?ls"
    by blast
  from t have "loadKeys (Resolved (FileText ?data))
                 = Inr (filter (\<lambda>l. \<not> list_all isWhiteSpace l) (split_nl ?data))"
    by blast
  then have "loadKeys (Resolved (FileText ?data)) = Inr [[0x61], [0x62, 0x20]]"
    unfolding s by (simp add: isWhiteSpace_def)
  with s show ?thesis by blast
qed

section \<open>The cool-down wait\<close>

lemma Min_insert_min: "finite A \<Longrightarrow> Min (insert (min a b) A) = min a (Min (insert b A))"
  by (cases "A = {}") (auto simp: min.assoc)

lemma minDuration_loop_Min:
  "minDuration_loop m ss
     = Min (insert m ((\<lambda>s. durationPerRound (session.sessionType s)
                            * rounds (session.sessionType s)) ` set ss))"
proof (induction ss arbitrary: m)
  case Nil
  show ?case by simp
next
  case (Cons s ss)
  let ?f = "\<lambda>s. durationPerRound (session.sessionType s) * rounds (session.sessionType s)"
  have "minDuration_loop m (s # ss) = Min (insert (min (?f s) m) (?f ` set ss))"
    by (simp add: Cons Let_def min_def not_less)
  also have "\<dots> = min (?f s) (Min (insert m (?f ` set ss)))"
    by (rule Min_insert_min) simp
  also have "\<dots> = Min (insert (?f s) (insert m (?f ` set ss)))"
    by simp
  also have "\<dots> = Min (insert m (?f ` set (s # ss)))"
    by (simp add: insert_commute)
  finally show ?case .
qed

text \<open>
  C5.  For every list of sessions, the cool-down wait is the minimum of 60 and
  of \<^verbatim>\<open>durationPerRound * rounds\<close> over every session, in seconds (the delay
  is called with 1000 times that); it never exceeds 60; for the products
  200, 45, 90 it is 45, and for 200, 300 it is 60.
\<close>

theorem cool_down_is_minimum:
  "minDuration ss
     = Min (insert 60 ((\<lambda>s. durationPerRound (session.sessionType s)
                             * rounds (session.sessionType s)) ` set ss))
   \<and> minDuration ss \<le> 60
   \<and> ((\<lambda>s. durationPerRound (session.sessionType s) * rounds (session.sessionType s)) ` set ss
         = {200, 45, 90} \<longrightarrow> minDuration ss = 45)
   \<and> ((\<lambda>s. durationPerRound (session.sessionType s) * rounds (session.sessionType s)) ` set ss
         = {200, 300} \<longrightarrow> minDuration ss = 60)
   \<and> for_sessions h k stk ss ta [] w
       = (\<lparr>key = k, status = Awaiting Cooldown, stack = stk\<rparr>,
          emit (Call (Delay (minDuration ss * 1000) ProcessingCompleted)) w)"
proof -
  let ?D = "(\<lambda>s. durationPerRound (session.sessionType s) * rounds (session.sessionType s)) ` set ss"
  have m: "minDuration ss = Min (insert 60 ?D)"
    by (simp add: minDuration_def minDuration_loop_Min)
  have le: "minDuration ss \<le> 60"
    unfolding m by (rule Min_le) simp_all
  have a: "?D = {200, 45, 90} \<longrightarrow> minDuration ss = 45"
    unfolding m by simp
  have b: "?D = {200, 300} \<longrightarrow> minDuration ss = 60"
    unfolding m by simp
  show ?thesis
    using m le a b by simp
qed

theorem cool_down_is_minimum_witness:
  "minDuration [mk_session 1 100 2, mk_session 1 45 1, mk_session 2 30 3] = 45
   \<and> minDuration [mk_session 1 100 2, mk_session 2 100 3] = 60"
proof -
  let ?f = "\<lambda>s. durationPerRound (session.sessionType s) * rounds (session.sessionType s)"
  have a: "?f ` set [mk_session 1 100 2, mk_session 1 45 1, mk_session 2 30 3] = {200, 45, 90}"
    by (simp add: mk_session_def)
  have b: "?f ` set [mk_session 1 100 2, mk_session 2 100 3] = {200, 300}"
    by (simp add: mk_session_def)
  show ?thesis
    using a b
      cool_down_is_minimum [of "[mk_session 1 100 2, mk_session 1 45 1, mk_session 2 30 3]"]
      cool_down_is_minimum [of "[mk_session 1 100 2, mk_session 2 100 3]"]
    by blast
qed

section \<open>The wait of \<^verbatim>\<open>handleSessionLimit\<close>\<close>

lemma hour_split:
  "(L div msPerDay) * msPerDay + ((L div msPerHour) mod 24) * msPerHour = L - L mod msPerHour"
proof -
  have d: "L div msPerDay = (L div msPerHour) div 24"
    unfolding msPerDay_def msPerHour_def
    using zdiv_zmult2_eq[of 24 L 3600000] by simp
  define q where "q = L div msPerHour"
  have "q div 24 * msPerDay + q mod 24 * msPerHour = q * msPerHour"
    unfolding msPerDay_def msPerHour_def using mult_div_mod_eq[of 24 q] by linarith
  then have "(L div msPerHour) div 24 * msPerDay + (L div msPerHour) mod 24 * msPerHour
               = (L div msPerHour) * msPerHour"
    unfolding q_def .
  moreover have "(L div msPerHour) * msPerHour = L - L mod msPerHour"
    by (simp add: minus_mod_eq_div_mult)
  ultimately show ?thesis using d by simp
qed



lemma nextHour_local: "nextHour h now = UTC h (next_local_hour h now)"
proof -
  let ?L = "LocalTime h now"
  have "MakeDate (Day ?L) (MakeTime (getHours h now + 1) 0 0 0)
          = (?L div msPerDay) * msPerDay + ((?L div msPerHour) mod 24 + 1) * msPerHour"
    by (simp add: MakeDate_def MakeTime_def Day_def getHours_def HourFromTime_def)
  also have "\<dots> = (?L - ?L mod msPerHour) + msPerHour"
    using hour_split[of ?L] by (simp add: algebra_simps)
  also have "\<dots> = ?L div msPerHour * msPerHour + msPerHour"
    by (simp add: minus_mod_eq_div_mult)
  also have "\<dots> = next_local_hour h now"
    by (simp add: next_local_hour_def algebra_simps)
  finally show ?thesis
    by (simp add: nextHour_def setHours_def)
qed



lemma handleSessionLimit_begin_waits:
  "0 < remainingTime h now \<Longrightarrow>
   handleSessionLimit_begin h now w =
     (True,
      emit (Call (Delay (remainingTime h now) WaitingNextHour))
        (emit (Log (SessionLimitWaiting (sessionCount w)
                      (remainingMinutes (remainingTime h now)))) w))"
  by (simp add: handleSessionLimit_begin_def Let_def)

lemma handleSessionLimit_begin_skips:
  "remainingTime h now \<le> 0 \<Longrightarrow> handleSessionLimit_begin h now w = (False, w)"
  by (simp add: handleSessionLimit_begin_def Let_def)

lemma remainingTime_fixed_offset:
  assumes "\<forall>t u. localTZA h t u = c"
  shows "remainingTime h now = msPerHour - (now + c) mod msPerHour"
proof -
  have L: "LocalTime h now = now + c" using assms by (simp add: LocalTime_def)
  have "remainingTime h now = next_local_hour h now - c - now"
    using assms by (simp add: remainingTime_def nextHour_local UTC_def)
  also have "\<dots> = ((now + c) - (now + c) mod msPerHour + msPerHour) - c - now"
    by (simp add: next_local_hour_def L minus_mod_eq_div_mult algebra_simps)
  finally show ?thesis by simp
qed


lemma remainingTime_examples:
  "remainingTime eastern 1730611800000 = 5400000"
  "remainingTime troll 1729992600000 = - 5400000"
  "remainingTime host0 1000 = 3599000"
  by (simp_all add: remainingTime_def nextHour_def setHours_def getHours_def UTC_def
        LocalTime_def MakeDate_def MakeTime_def Day_def HourFromTime_def eastern_def troll_def
        host0_def fall_back_def two_hours_back_def msPerHour_def msPerDay_def msPerMinute_def
        msPerSecond_def)

lemma remainingTime_host0_pos: "0 < remainingTime host0 now"
proof -
  have "remainingTime host0 now = msPerHour - (now + 0) mod msPerHour"
    by (rule remainingTime_fixed_offset) (simp add: host0_def)
  then show ?thesis by (simp add: msPerHour_def)
qed


section \<open>What the pieces of \<^verbatim>\<open>runWallet\<close> do to the shared variables\<close>

lemma emit_simps [simp]:
  "sessionCount (emit e w) = sessionCount w"
  "lastSessionTime (emit e w) = lastSessionTime w"
  "trace (emit e w) = trace w @ [e]"
  by (simp_all add: emit_def)

lemma handleSessionLimit_end_simps [simp]:
  "sessionCount (handleSessionLimit_end w) = 0"
  "lastSessionTime (handleSessionLimit_end w) = None"
  "trace (handleSessionLimit_end w) = trace w"
  by (simp_all add: handleSessionLimit_end_def)

lemma runWallet_connect:
  "sessionCount w < 6 \<Longrightarrow>
   runWallet h now k stk w =
     (\<lparr>key = k, status = Awaiting Connect, stack = stk\<rparr>,
      emit (Call WalletConnect) (emit (NewWallet k) w))"
  by (subst runWallet.simps) (simp add: Let_def)

lemma runWallet_gate:
  "6 \<le> sessionCount w \<Longrightarrow> 0 < remainingTime h now \<Longrightarrow>
   runWallet h now k stk w =
     (\<lparr>key = k, status = Awaiting GateReset, stack = stk\<rparr>,
      emit (Call (Delay (remainingTime h now) WaitingNextHour))
        (emit (Log (SessionLimitWaiting (sessionCount w) (remainingMinutes (remainingTime h now))))
          (emit (Log (SessionLimitReached (sessionCount w))) (emit (NewWallet k) w))))"
  by (subst runWallet.simps) (simp add: Let_def handleSessionLimit_begin_waits)

lemma runWallet_gate_no_wait:
  "6 \<le> sessionCount w \<Longrightarrow> remainingTime h now \<le> 0 \<Longrightarrow>
   runWallet h now k stk w =
     (\<lparr>key = k, status = Awaiting Connect, stack = Line74 # stk\<rparr>,
      emit (Call WalletConnect)
        (emit (NewWallet k)
          (handleSessionLimit_end
            (emit (Log (SessionLimitReached (sessionCount w))) (emit (NewWallet k) w)))))"
  by (subst runWallet.simps)
     (simp add: Let_def handleSessionLimit_begin_skips runWallet_connect)

lemma runWallet_count [simp]:
  "sessionCount (snd (runWallet h now k stk w))
     = (if 6 \<le> sessionCount w \<and> remainingTime h now \<le> 0 then 0 else sessionCount w)"
  "lastSessionTime (snd (runWallet h now k stk w))
     = (if 6 \<le> sessionCount w \<and> remainingTime h now \<le> 0 then None else lastSessionTime w)"
  by (cases "6 \<le> sessionCount w"; cases "0 < remainingTime h now";
      simp add: runWallet_gate runWallet_connect runWallet_gate_no_wait)+

lemma for_sessions_count [simp]:
  "sessionCount (snd (for_sessions h k stk all ta ss w)) = sessionCount w"
  "lastSessionTime (snd (for_sessions h k stk all ta ss w)) = lastSessionTime w"
  by (induction ss arbitrary: w; simp)+

lemma while_retry_count [simp]:
  "sessionCount (snd (while_retry h k stk lv w)) = sessionCount w"
  "lastSessionTime (snd (while_retry h k stk lv w)) = lastSessionTime w"
  by (simp_all add: while_retry_def)

lemma throw_in_count [simp]:
  "sessionCount (snd (throw_in h k r stk e w)) = sessionCount w"
  "lastSessionTime (snd (throw_in h k r stk e w)) = lastSessionTime w"
  by (induction h k r stk e w rule: throw_in.induct; simp add: throw_in.simps Let_def)+

lemma catch_count [simp]:
  "sessionCount (snd (inner_catch h k stk lv e w)) = sessionCount w"
  "lastSessionTime (snd (inner_catch h k stk lv e w)) = lastSessionTime w"
  "sessionCount (snd (outer_catch h k stk e w)) = sessionCount w"
  "lastSessionTime (snd (outer_catch h k stk e w)) = lastSessionTime w"
  "sessionCount (snd (unwind h k e stk w)) = sessionCount w"
  "lastSessionTime (snd (unwind h k e stk w)) = lastSessionTime w"
  by (simp_all add: inner_catch_def outer_catch_def unwind_def)

lemma outer_catch_describable:
  "describable e \<Longrightarrow>
   outer_catch h k stk e w =
     (\<lparr>key = k, status = Awaiting ErrorDelay, stack = stk\<rparr>,
      w\<lparr>trace := trace w @ [Log (ErrorRetrying e), Call (Delay 10000 (ErrorRetryingMsg e))]\<rparr>)"
  by (simp add: outer_catch_def throw_in.simps emit_def)


lemma inner_catch_readable:
  "message_readable e \<Longrightarrow>
   inner_catch h k stk lv e w =
     (if maxRetries \<le> retryCount lv + 1 then
        for_sessions h k stk (sessions lv) (targetAgent lv) (rest lv)
          (w\<lparr>trace := trace w @ [Log (Attempt (retryCount lv + 1) maxRetries e),
                                  Log (FailedToStart maxRetries)]\<rparr>)
      else
        (\<lparr>key = k, status = Awaiting (RetryDelay (lv\<lparr>retryCount := retryCount lv + 1\<rparr>)),
          stack = stk\<rparr>,
         w\<lparr>trace := trace w @ [Log (Attempt (retryCount lv + 1) maxRetries e),
                                 Call (Delay 10000 BeforeRetrying)]\<rparr>))"
  by (simp add: inner_catch_def throw_in.simps Let_def emit_def)

lemma inner_catch_unreadable:
  "\<not> message_readable e \<Longrightarrow>
   inner_catch h k stk lv e w =
     (\<lparr>key = k, status = Awaiting ErrorDelay, stack = stk\<rparr>,
      w\<lparr>trace := trace w @ [Log (ErrorRetrying TypeError),
                              Call (Delay 10000 (ErrorRetryingMsg TypeError))]\<rparr>)"
  by (simp add: inner_catch_def throw_in.simps Let_def emit_def)


lemma after_hydrate_count [simp]:
  "sessionCount (snd (after_hydrate h k stk as ss w)) = sessionCount w"
  "lastSessionTime (snd (after_hydrate h k stk as ss w)) = lastSessionTime w"
  by (simp_all add: after_hydrate_def Let_def split: option.splits)

lemma started_below:
  "sessionCount w + 1 < 6 \<Longrightarrow>
   started h now k stk lv w =
     (\<lparr>key = k, status = Awaiting (NextMatchDelay lv), stack = stk\<rparr>,
      w\<lparr>sessionCount := sessionCount w + 1, lastSessionTime := Some now,
        trace := trace w @ [Log (SessionsUsed (sessionCount w + 1)),
                            Call (Delay 2000 BeforeNextMatch)]\<rparr>)"
  by (simp add: started_def Let_def emit_def)

lemma started_limit:
  "6 \<le> sessionCount w + 1 \<Longrightarrow> 0 < remainingTime h now \<Longrightarrow>
   started h now k stk lv w =
     (\<lparr>key = k, status = Awaiting (LimitReset lv), stack = stk\<rparr>,
      w\<lparr>sessionCount := sessionCount w + 1, lastSessionTime := Some now,
        trace := trace w @ [Log (SessionsUsed (sessionCount w + 1)),
                            Log SessionLimitReachedWaiting,
                            Log (SessionLimitWaiting (sessionCount w + 1)
                                   (remainingMinutes (remainingTime h now))),
                            Call (Delay (remainingTime h now) WaitingNextHour)]\<rparr>)"
  by (simp add: started_def Let_def emit_def handleSessionLimit_begin_waits)

lemma started_limit_no_wait:
  "6 \<le> sessionCount w + 1 \<Longrightarrow> remainingTime h now \<le> 0 \<Longrightarrow>
   started h now k stk lv w =
     (\<lparr>key = k, status = Awaiting Connect, stack = Line127 lv # stk\<rparr>,
      w\<lparr>sessionCount := 0, lastSessionTime := None,
        trace := trace w @ [Log (SessionsUsed (sessionCount w + 1)),
                            Log SessionLimitReachedWaiting,
                            NewWallet k, Call WalletConnect]\<rparr>)"
  by (simp add: started_def Let_def emit_def handleSessionLimit_begin_skips runWallet_connect
        handleSessionLimit_end_def)

lemma started_count [simp]:
  "sessionCount (snd (started h now k stk lv w))
     = (if 6 \<le> sessionCount w + 1 \<and> remainingTime h now \<le> 0 then 0 else sessionCount w + 1)"
  "lastSessionTime (snd (started h now k stk lv w))
     = (if 6 \<le> sessionCount w + 1 \<and> remainingTime h now \<le> 0 then None else Some now)"
  by (cases "6 \<le> sessionCount w + 1"; cases "0 < remainingTime h now";
      simp add: started_below started_limit started_limit_no_wait)+

lemma started_status:
  "status (fst (started h now k stk lv w)) =
     Awaiting (if 6 \<le> sessionCount w + 1
               then (if 0 < remainingTime h now then LimitReset lv else Connect)
               else NextMatchDelay lv)"
  by (cases "6 \<le> sessionCount w + 1"; cases "0 < remainingTime h now";
      simp add: started_below started_limit started_limit_no_wait)

lemma step_Awaiting [simp]:
  "step h now r (\<lparr>key = k, status = Awaiting p, stack = stk\<rparr>, w) = resume h now r k stk p w"
  by (simp add: step_def)

lemma resume_count:
  "sessionCount (snd (resume h now r k stk p w)) =
     (case r of
        Resolved v \<Rightarrow>
          (case p of
             Start lv \<Rightarrow>
               if truthy v then
                 (if 6 \<le> sessionCount w + 1 \<and> remainingTime h now \<le> 0 then 0
                  else sessionCount w + 1)
               else sessionCount w
           | GateReset \<Rightarrow> 0
           | LimitReset lv \<Rightarrow> 0
           | Cooldown \<Rightarrow>
               if 6 \<le> sessionCount w \<and> remainingTime h now \<le> 0 then 0 else sessionCount w
           | ErrorDelay \<Rightarrow>
               if 6 \<le> sessionCount w \<and> remainingTime h now \<le> 0 then 0 else sessionCount w
           | _ \<Rightarrow> sessionCount w)
      | Rejected e \<Rightarrow> sessionCount w)"
  by (cases r; cases p; simp)

section \<open>The reset of \<^verbatim>\<open>handleSessionLimit\<close>\<close>




section \<open>The retry loop (lines 106-142)\<close>

lemma for_sessions_automated:
  "automationEnabled ta \<Longrightarrow>
   for_sessions h k stk all ta ss w =
     (\<lparr>key = k, status = Awaiting Cooldown, stack = stk\<rparr>,
      w\<lparr>trace := trace w
           @ map (\<lambda>s. Log AlreadyAutomated)
               (filter (\<lambda>s. session_type.sessionType (agent.sessionType ta)
                              = session_type.sessionType (session.sessionType s)) ss)
           @ [Call (Delay (minDuration all * 1000) ProcessingCompleted)]\<rparr>)"
  by (induction ss arbitrary: w) (simp_all add: emit_def)

lemma for_sessions_start:
  "session_type.sessionType (agent.sessionType ta) = session_type.sessionType (session.sessionType s)
   \<Longrightarrow> \<not> automationEnabled ta \<Longrightarrow>
   for_sessions h k stk all ta (s # ss) w =
     (\<lparr>key = k,
       status = Awaiting (Start \<lparr>sessions = all, targetAgent = ta, session = s, rest = ss,
                                retryCount = 0\<rparr>),
       stack = stk\<rparr>,
      emit (Call (start_request h ta s)) w)"
  by (simp add: maxRetries_def)

lemma falsy_loop:
  "retryCount lv < maxRetries \<Longrightarrow>
   \<forall>x\<in>set sched. \<exists>v. snd x = Resolved v \<and> \<not> truthy v \<Longrightarrow>
   run h sched (\<lparr>key = k, status = Awaiting (Start lv), stack = stk\<rparr>, w) =
     (\<lparr>key = k, status = Awaiting (Start lv), stack = stk\<rparr>,
      w\<lparr>trace := trace w
           @ replicate (length sched) (Call (start_request h (targetAgent lv) (session lv)))\<rparr>)"
proof (induction sched arbitrary: w)
  case Nil
  show ?case by simp
next
  case (Cons x xs)
  from Cons.prems(2) obtain v where v: "snd x = Resolved v" "\<not> truthy v" by auto
  have "run h (x # xs) (\<lparr>key = k, status = Awaiting (Start lv), stack = stk\<rparr>, w)
          = run h xs (\<lparr>key = k, status = Awaiting (Start lv), stack = stk\<rparr>,
                      emit (Call (start_request h (targetAgent lv) (session lv))) w)"
    using v Cons.prems(1) by (simp add: while_retry_def)
  also have "\<dots> = (\<lparr>key = k, status = Awaiting (Start lv), stack = stk\<rparr>,
      (emit (Call (start_request h (targetAgent lv) (session lv))) w)
        \<lparr>trace := trace (emit (Call (start_request h (targetAgent lv) (session lv))) w)
           @ replicate (length xs) (Call (start_request h (targetAgent lv) (session lv)))\<rparr>)"
    using Cons.prems by (intro Cons.IH) auto
  finally show ?case by (simp add: emit_def)
qed

text \<open>
  C9.  For a session whose type is the one of a target agent without
  automation, when the start function resolves with a falsy value every
  time, the retry loop does not end: after any number of such results the
  function awaits the next call of the start function for the same session,
  \<^verbatim>\<open>retryCount\<close> is still 0, every result was followed at once by the next
  call (the trace holds the calls and nothing else: no backoff wait), and the
  shared variables are as they were.
\<close>

theorem falsy_start_loops_forever:
  assumes "session_type.sessionType (agent.sessionType ta)
             = session_type.sessionType (session.sessionType s)"
      and "\<not> automationEnabled ta"
      and "\<forall>x\<in>set sched. \<exists>v. snd x = Resolved v \<and> \<not> truthy v"
  shows "run h sched (for_sessions h k stk all ta (s # ss) w) =
          (\<lparr>key = k,
            status = Awaiting (Start \<lparr>sessions = all, targetAgent = ta, session = s, rest = ss,
                                     retryCount = 0\<rparr>),
            stack = stk\<rparr>,
           w\<lparr>trace := trace w @ replicate (Suc (length sched)) (Call (start_request h ta s))\<rparr>)"
  using assms
  by (simp add: for_sessions_start falsy_loop maxRetries_def emit_def)

theorem falsy_start_loops_forever_witness:
  "run host0 [(0, Resolved (Result False)), (1, Resolved Unit), (2, Resolved (Result False))]
     (for_sessions host0 [] [] [mk_session 1 10 2] (mk_agent [0x41] 1 False) [mk_session 1 10 2] (world0 0))
   = (\<lparr>key = [],
            status = Awaiting (Start \<lparr>sessions = [mk_session 1 10 2], targetAgent = mk_agent [0x41] 1 False, session = mk_session 1 10 2, rest = [],
                                     retryCount = 0\<rparr>),
            stack = []\<rparr>,
           \<lparr>sessionCount = 0, lastSessionTime = None, trace = replicate 4 (Call (StartMatch (mk_agent [0x41] 1 False) (mk_session 1 10 2)))\<rparr>)"
proof -
  have a: "session_type.sessionType (agent.sessionType (mk_agent [0x41] 1 False))
             = session_type.sessionType (session.sessionType (mk_session 1 10 2))"
    by (simp add: mk_agent_def mk_session_def)
  have b: "\<not> automationEnabled (mk_agent [0x41] 1 False)"
    by (simp add: mk_agent_def)
  have c: "\<forall>x\<in>set [(0::int, Resolved (Result False)), (1, Resolved Unit), (2, Resolved (Result False))]. \<exists>v. snd x = Resolved v \<and> \<not> truthy v"
    by simp
  have d: "start_request host0 (mk_agent [0x41] 1 False) (mk_session 1 10 2) = StartMatch (mk_agent [0x41] 1 False) (mk_session 1 10 2)"
    by (simp add: start_request_def host0_def isAutoMatch_def auto_literal_def)
  have e: "run host0 [(0, Resolved (Result False)), (1, Resolved Unit), (2, Resolved (Result False))]
     (for_sessions host0 [] [] [mk_session 1 10 2] (mk_agent [0x41] 1 False) [mk_session 1 10 2] (world0 0))
     = (\<lparr>key = [],
            status = Awaiting (Start \<lparr>sessions = [mk_session 1 10 2], targetAgent = mk_agent [0x41] 1 False, session = mk_session 1 10 2, rest = [],
                                     retryCount = 0\<rparr>),
            stack = []\<rparr>,
        (world0 0)\<lparr>trace := trace (world0 0) @ replicate (Suc (length [(0::int, Resolved (Result False)), (1, Resolved Unit), (2, Resolved (Result False))])) (Call (start_request host0 (mk_agent [0x41] 1 False) (mk_session 1 10 2)))\<rparr>)"
    by (rule falsy_start_loops_forever [OF a b c])
  have f: "(world0 0)\<lparr>trace := trace (world0 0) @ replicate (Suc (length [(0::int, Resolved (Result False)), (1, Resolved Unit), (2, Resolved (Result False))])) (Call (start_request host0 (mk_agent [0x41] 1 False) (mk_session 1 10 2)))\<rparr>
     = \<lparr>sessionCount = 0, lastSessionTime = None, trace = replicate 4 (Call (StartMatch (mk_agent [0x41] 1 False) (mk_session 1 10 2)))\<rparr>"
    unfolding d by (simp add: world0_def numeral_eq_Suc)
  show ?thesis
    unfolding e f ..
qed

section \<open>The quota gate (lines 71-75 and 124-128)\<close>










section \<open>The session counter\<close>

text \<open>
  C6.  A truthy result of a start call adds exactly 1 to the session counter:
  line 121 logs the counter as one more than it was, and the counter has that
  value when the function next awaits (or, when that value is 6 or more and
  \<^verbatim>\<open>handleSessionLimit\<close> finds nothing to wait for, the function has already
  reset it to 0).  A falsy result and a start call that throws leave it as
  it is; with an automated target agent the sessions are skipped with a log
  line each, no start call is made and the counter is unchanged.  Nothing
  else in \<^verbatim>\<open>runWallet\<close> adds to the counter: whatever the function awaits
  and whatever that settles with, the counter is unchanged, or a truthy
  start result has added 1, or \<^verbatim>\<open>handleSessionLimit\<close> has set it to 0 (its
  wait has resolved, or it found nothing to wait for with the counter at 6
  or more).
\<close>

theorem sessionCount_written_by_truthy_start:
  "(truthy v \<longrightarrow>
      sessionCount (snd (resume h now (Resolved v) k stk (Start lv) w))
        = (if 6 \<le> sessionCount w + 1 \<and> remainingTime h now \<le> 0 then 0
           else sessionCount w + 1)
      \<and> (\<exists>new. trace (snd (resume h now (Resolved v) k stk (Start lv) w))
                  = trace w @ Log (SessionsUsed (sessionCount w + 1)) # new))
   \<and> (\<not> truthy v \<longrightarrow>
        sessionCount (snd (resume h now (Resolved v) k stk (Start lv) w)) = sessionCount w)
   \<and> sessionCount (snd (resume h now (Rejected e) k stk (Start lv) w)) = sessionCount w
   \<and> (automationEnabled ta \<longrightarrow>
        for_sessions h k stk all ta ss w =
          (\<lparr>key = k, status = Awaiting Cooldown, stack = stk\<rparr>,
           w\<lparr>trace := trace w
                @ map (\<lambda>s. Log AlreadyAutomated)
                    (filter (\<lambda>s. session_type.sessionType (agent.sessionType ta)
                                   = session_type.sessionType (session.sessionType s)) ss)
                @ [Call (Delay (minDuration all * 1000) ProcessingCompleted)]\<rparr>))
   \<and> (sessionCount (snd (resume h now r k stk p w)) = sessionCount w
        \<or> (\<exists>lv' v'. p = Start lv' \<and> r = Resolved v' \<and> truthy v'
              \<and> sessionCount (snd (resume h now r k stk p w)) = sessionCount w + 1)
        \<or> (\<exists>v'. (p = GateReset \<or> (\<exists>lv'. p = LimitReset lv')) \<and> r = Resolved v'
              \<and> sessionCount (snd (resume h now r k stk p w)) = 0)
        \<or> (\<exists>v'. remainingTime h now \<le> 0 \<and> r = Resolved v'
              \<and> ((\<exists>lv'. p = Start lv' \<and> truthy v' \<and> 6 \<le> sessionCount w + 1)
                   \<or> ((p = Cooldown \<or> p = ErrorDelay) \<and> 6 \<le> sessionCount w))
              \<and> sessionCount (snd (resume h now r k stk p w)) = 0))"
proof -
  have a: "truthy v \<longrightarrow>
      sessionCount (snd (resume h now (Resolved v) k stk (Start lv) w))
        = (if 6 \<le> sessionCount w + 1 \<and> remainingTime h now \<le> 0 then 0
           else sessionCount w + 1)
      \<and> (\<exists>new. trace (snd (resume h now (Resolved v) k stk (Start lv) w))
                  = trace w @ Log (SessionsUsed (sessionCount w + 1)) # new)"
    by (cases "6 \<le> sessionCount w + 1"; cases "0 < remainingTime h now")
       (simp_all add: started_below started_limit started_limit_no_wait)
  have b: "\<not> truthy v \<longrightarrow>
        sessionCount (snd (resume h now (Resolved v) k stk (Start lv) w)) = sessionCount w"
    by simp
  have c: "sessionCount (snd (resume h now (Rejected e) k stk (Start lv) w)) = sessionCount w"
    by simp
  have d: "automationEnabled ta \<longrightarrow>
        for_sessions h k stk all ta ss w =
          (\<lparr>key = k, status = Awaiting Cooldown, stack = stk\<rparr>,
           w\<lparr>trace := trace w
                @ map (\<lambda>s. Log AlreadyAutomated)
                    (filter (\<lambda>s. session_type.sessionType (agent.sessionType ta)
                                   = session_type.sessionType (session.sessionType s)) ss)
                @ [Call (Delay (minDuration all * 1000) ProcessingCompleted)]\<rparr>)"
    by (simp add: for_sessions_automated)
  have e: "sessionCount (snd (resume h now r k stk p w)) = sessionCount w
        \<or> (\<exists>lv' v'. p = Start lv' \<and> r = Resolved v' \<and> truthy v'
              \<and> sessionCount (snd (resume h now r k stk p w)) = sessionCount w + 1)
        \<or> (\<exists>v'. (p = GateReset \<or> (\<exists>lv'. p = LimitReset lv')) \<and> r = Resolved v'
              \<and> sessionCount (snd (resume h now r k stk p w)) = 0)
        \<or> (\<exists>v'. remainingTime h now \<le> 0 \<and> r = Resolved v'
              \<and> ((\<exists>lv'. p = Start lv' \<and> truthy v' \<and> 6 \<le> sessionCount w + 1)
                   \<or> ((p = Cooldown \<or> p = ErrorDelay) \<and> 6 \<le> sessionCount w))
              \<and> sessionCount (snd (resume h now r k stk p w)) = 0)"
    by (cases r; cases p; simp)
  show ?thesis using a b c d e by blast
qed

theorem sessionCount_written_by_truthy_start_witness:
  "sessionCount (snd (resume host0 7 (Resolved (Result True)) [] [] (Start lv0) (world0 2))) = 3
   \<and> sessionCount (snd (resume troll 1729992600000 (Resolved (Result True)) [] [] (Start lv0)
                          (world0 5))) = 0
   \<and> sessionCount (snd (resume host0 7 (Resolved (Result False)) [] [] (Start lv0) (world0 2))) = 2
   \<and> for_sessions host0 [] [] [mk_session 1 10 2] (mk_agent [0x41] 1 True)
         [mk_session 1 10 2, mk_session 2 5 5] (world0 2)
       = (\<lparr>key = [], status = Awaiting Cooldown, stack = []\<rparr>,
          \<lparr>sessionCount = 2, lastSessionTime = None,
            trace = [Log AlreadyAutomated, Call (Delay 20000 ProcessingCompleted)]\<rparr>)"
proof -
  note a = sessionCount_written_by_truthy_start [of "Result True" host0 7 "[]" "[]" lv0 "world0 2"]
  note a' = sessionCount_written_by_truthy_start
              [of "Result True" troll 1729992600000 "[]" "[]" lv0 "world0 5"]
  note b = sessionCount_written_by_truthy_start [of "Result False" host0 7 "[]" "[]" lv0 "world0 2" _
                  "mk_agent [0x41] 1 True" "[mk_session 1 10 2]"
                  "[mk_session 1 10 2, mk_session 2 5 5]"]
  have t: "truthy (Result True)" "\<not> truthy (Result False)"
          "automationEnabled (mk_agent [0x41] 1 True)"
    by (simp_all add: mk_agent_def)
  have neg: "remainingTime troll 1729992600000 \<le> 0"
    by (simp add: remainingTime_examples)
  have m: "minDuration [mk_session 1 10 2] = 20"
    by (simp add: minDuration_def mk_session_def)
  from a t have 1: "sessionCount (snd (resume host0 7 (Resolved (Result True)) [] [] (Start lv0) (world0 2))) = 3"
    by (simp add: world0_def)
  from a' t neg have 4: "sessionCount (snd (resume troll 1729992600000 (Resolved (Result True)) [] [] (Start lv0)
                          (world0 5))) = 0"
    by (simp add: world0_def)
  from b t have 2: "sessionCount (snd (resume host0 7 (Resolved (Result False)) [] [] (Start lv0) (world0 2))) = 2"
    by (simp add: world0_def)
  from b t have "for_sessions host0 [] [] [mk_session 1 10 2] (mk_agent [0x41] 1 True)
         [mk_session 1 10 2, mk_session 2 5 5] (world0 2)
       = (\<lparr>key = [], status = Awaiting Cooldown, stack = []\<rparr>,
           (world0 2)\<lparr>trace := trace (world0 2)
                @ map (\<lambda>s. Log AlreadyAutomated)
                    (filter (\<lambda>s. session_type.sessionType (agent.sessionType (mk_agent [0x41] 1 True))
                                   = session_type.sessionType (session.sessionType s)) [mk_session 1 10 2, mk_session 2 5 5])
                @ [Call (Delay (minDuration [mk_session 1 10 2] * 1000) ProcessingCompleted)]\<rparr>)"
    by blast
  then have 3: "for_sessions host0 [] [] [mk_session 1 10 2] (mk_agent [0x41] 1 True)
         [mk_session 1 10 2, mk_session 2 5 5] (world0 2)
       = (\<lparr>key = [], status = Awaiting Cooldown, stack = []\<rparr>,
          \<lparr>sessionCount = 2, lastSessionTime = None,
            trace = [Log AlreadyAutomated, Call (Delay 20000 ProcessingCompleted)]\<rparr>)"
    unfolding m by (simp add: world0_def mk_agent_def mk_session_def)
  from 1 4 2 3 show ?thesis by blast
qed

section \<open>The attempts of the retry loop\<close>

lemma start_request_kind [simp]:
  "is_start_call (Call (start_request h a s))"
  "\<not> is_backoff_wait (Call (start_request h a s))"
  by (simp_all add: start_request_def)

lemma step_start_rejected:
  "retryCount lv + 1 < maxRetries \<Longrightarrow> message_readable e \<Longrightarrow>
   step h t (Rejected e) (\<lparr>key = k, status = Awaiting (Start lv), stack = stk\<rparr>, w)
     = (\<lparr>key = k, status = Awaiting (RetryDelay (lv\<lparr>retryCount := retryCount lv + 1\<rparr>)), stack = stk\<rparr>,
        w\<lparr>trace := trace w @ [Log (Attempt (retryCount lv + 1) maxRetries e),
                                Call (Delay 10000 BeforeRetrying)]\<rparr>)"
  by (simp add: inner_catch_readable)

lemma step_start_rejected_last:
  "maxRetries \<le> retryCount lv + 1 \<Longrightarrow> message_readable e \<Longrightarrow>
   step h t (Rejected e) (\<lparr>key = k, status = Awaiting (Start lv), stack = stk\<rparr>, w)
     = for_sessions h k stk (sessions lv) (targetAgent lv) (rest lv)
        (w\<lparr>trace := trace w @ [Log (Attempt (retryCount lv + 1) maxRetries e),
                                Log (FailedToStart maxRetries)]\<rparr>)"
  by (simp add: inner_catch_readable)

lemma step_start_rejected_unreadable:
  "\<not> message_readable e \<Longrightarrow>
   step h t (Rejected e) (\<lparr>key = k, status = Awaiting (Start lv), stack = stk\<rparr>, w)
     = (\<lparr>key = k, status = Awaiting ErrorDelay, stack = stk\<rparr>,
        w\<lparr>trace := trace w @ [Log (ErrorRetrying TypeError),
                                Call (Delay 10000 (ErrorRetryingMsg TypeError))]\<rparr>)"
  by (simp add: inner_catch_unreadable)

lemma step_retry_delay:
  "retryCount lv < maxRetries \<Longrightarrow>
   step h t (Resolved v) (\<lparr>key = k, status = Awaiting (RetryDelay lv), stack = stk\<rparr>, w)
     = (\<lparr>key = k, status = Awaiting (Start lv), stack = stk\<rparr>,
        w\<lparr>trace := trace w @ [Call (start_request h (targetAgent lv) (session lv))]\<rparr>)"
  by (simp add: while_retry_def emit_def)

lemma step_start_truthy:
  "truthy v \<Longrightarrow>
   step h t (Resolved v) (\<lparr>key = k, status = Awaiting (Start lv), stack = stk\<rparr>, w)
     = started h t k stk lv w"
  by simp

lemma retry_loop_succeeds:
  assumes m: "session_type.sessionType (agent.sessionType ta)
               = session_type.sessionType (session.sessionType s)"
      and a: "\<not> automationEnabled ta"
      and n: "length fs < 3"
      and v: "truthy v"
      and r: "\<forall>f\<in>set fs. message_readable (fst (snd f))"
  shows "run h (backoff_schedule fs @ [(now, Resolved v)]) (for_sessions h k stk all ta (s # ss) w)
          = started h now k stk
              \<lparr>sessions = all, targetAgent = ta, session = s, rest = ss, retryCount = length fs\<rparr>
              (w\<lparr>trace := trace w @ Call (start_request h ta s)
                    # concat (map (\<lambda>i. [Log (Attempt (Suc i) 3 (fst (snd (fs ! i)))),
                                          Call (Delay 10000 BeforeRetrying),
                                          Call (start_request h ta s)]) [0..<length fs])\<rparr>)"
proof -
  let ?lv = "\<lparr>sessions = all, targetAgent = ta, session = s, rest = ss, retryCount = 0\<rparr>"
  have e: "for_sessions h k stk all ta (s # ss) w
             = (\<lparr>key = k, status = Awaiting (Start ?lv), stack = stk\<rparr>,
                w\<lparr>trace := trace w @ [Call (start_request h ta s)]\<rparr>)"
    using m a by (simp add: maxRetries_def emit_def)
  consider "fs = []" | f1 where "fs = [f1]" | f1 f2 where "fs = [f1, f2]"
    using n by (cases fs; cases "tl fs"; cases "tl (tl fs)") auto
  then show ?thesis
  proof cases
    case 1
    then show ?thesis unfolding e using v
      by (simp add: backoff_schedule_def)
  next
    case 2
    then show ?thesis unfolding e using v r
      by (simp add: backoff_schedule_def step_start_rejected step_retry_delay step_start_truthy
            maxRetries_def del: step_Awaiting)
  next
    case 3
    then show ?thesis unfolding e using v r
      by (simp add: backoff_schedule_def step_start_rejected step_retry_delay step_start_truthy
            maxRetries_def del: step_Awaiting)
  qed
qed

lemma retry_loop_gives_up:
  assumes m: "session_type.sessionType (agent.sessionType ta)
               = session_type.sessionType (session.sessionType s)"
      and a: "\<not> automationEnabled ta"
      and n: "3 \<le> length fs"
      and r: "\<forall>f\<in>set (take 3 fs). message_readable (fst (snd f))"
  shows "run h (take 5 (backoff_schedule fs)) (for_sessions h k stk all ta (s # ss) w)
          = for_sessions h k stk all ta ss
              (w\<lparr>trace := trace w @
                   [Call (start_request h ta s),
                    Log (Attempt 1 3 (fst (snd (fs ! 0)))), Call (Delay 10000 BeforeRetrying),
                    Call (start_request h ta s),
                    Log (Attempt 2 3 (fst (snd (fs ! 1)))), Call (Delay 10000 BeforeRetrying),
                    Call (start_request h ta s),
                    Log (Attempt 3 3 (fst (snd (fs ! 2)))), Log (FailedToStart 3)]\<rparr>)"
proof -
  let ?lv = "\<lparr>sessions = all, targetAgent = ta, session = s, rest = ss, retryCount = 0\<rparr>"
  have e: "for_sessions h k stk all ta (s # ss) w
             = (\<lparr>key = k, status = Awaiting (Start ?lv), stack = stk\<rparr>,
                w\<lparr>trace := trace w @ [Call (start_request h ta s)]\<rparr>)"
    using m a by (simp add: maxRetries_def emit_def)
  obtain f1 f2 f3 r where "fs = f1 # f2 # f3 # r"
    using n by (cases fs; cases "tl fs"; cases "tl (tl fs)") auto
  then show ?thesis unfolding e using r
    by (simp add: backoff_schedule_def step_start_rejected step_start_rejected_last
          step_retry_delay maxRetries_def numeral_2_eq_2 numeral_3_eq_3 del: step_Awaiting)
qed

lemma for_sessions_status:
  "\<exists>p. status (fst (for_sessions h k stk all ta ss w)) = Awaiting p
         \<and> (p = Cooldown \<or> (\<exists>lv. p = Start lv))"
  by (induction ss arbitrary: w) simp_all

lemma succeeds_events:
  assumes "length fs < 3"
  shows "filter is_start_call
           (Call (start_request h ta s)
              # concat (map (\<lambda>i. [Log (Attempt (Suc i) 3 (fst (snd (fs ! i)))),
                                    Call (Delay 10000 BeforeRetrying),
                                    Call (start_request h ta s)]) [0..<length fs])
              @ Log (SessionsUsed c) # tl_events)
         = replicate (length fs + 1) (Call (start_request h ta s)) @ filter is_start_call tl_events"
    and "filter is_backoff_wait
           (Call (start_request h ta s)
              # concat (map (\<lambda>i. [Log (Attempt (Suc i) 3 (fst (snd (fs ! i)))),
                                    Call (Delay 10000 BeforeRetrying),
                                    Call (start_request h ta s)]) [0..<length fs])
              @ Log (SessionsUsed c) # tl_events)
         = replicate (length fs) (Call (Delay 10000 BeforeRetrying)) @ filter is_backoff_wait tl_events"
proof -
  consider "fs = []" | f1 where "fs = [f1]" | f1 f2 where "fs = [f1, f2]"
    using assms by (cases fs; cases "tl fs"; cases "tl (tl fs)") auto
  then show "filter is_start_call
           (Call (start_request h ta s)
              # concat (map (\<lambda>i. [Log (Attempt (Suc i) 3 (fst (snd (fs ! i)))),
                                    Call (Delay 10000 BeforeRetrying),
                                    Call (start_request h ta s)]) [0..<length fs])
              @ Log (SessionsUsed c) # tl_events)
         = replicate (length fs + 1) (Call (start_request h ta s)) @ filter is_start_call tl_events"
    by cases simp_all
  consider "fs = []" | f1 where "fs = [f1]" | f1 f2 where "fs = [f1, f2]"
    using assms by (cases fs; cases "tl fs"; cases "tl (tl fs)") auto
  then show "filter is_backoff_wait
           (Call (start_request h ta s)
              # concat (map (\<lambda>i. [Log (Attempt (Suc i) 3 (fst (snd (fs ! i)))),
                                    Call (Delay 10000 BeforeRetrying),
                                    Call (start_request h ta s)]) [0..<length fs])
              @ Log (SessionsUsed c) # tl_events)
         = replicate (length fs) (Call (Delay 10000 BeforeRetrying)) @ filter is_backoff_wait tl_events"
    by cases simp_all
qed

text \<open>
  C1, as the claim states it, fails: not every value a start function throws
  is counted as a failed attempt.  When the start function throws
  \<^verbatim>\<open>null\<close> or \<^verbatim>\<open>undefined\<close>, line 135 reads \<^verbatim>\<open>error.message\<close> and throws
  inside the \<^verbatim>\<open>catch\<close> of the retry loop; that error leaves the loop and
  reaches the \<^verbatim>\<open>catch\<close> of line 162, which logs it and waits before it runs
  \<^verbatim>\<open>runWallet\<close> again.  Here the start function throws once (N = 1): there
  is one call of the start function and no backoff wait, the iteration has
  ended in the outer \<^verbatim>\<open>catch\<close>, and when the two further operations of the
  schedule have settled the wallet is connecting again and no second call
  has been made.
\<close>

theorem null_throw_leaves_retry_loop:
  "run host0 [(1, Rejected Nullish)]
       (for_sessions host0 [] [] [mk_session 1 10 2] (mk_agent [0x41] 1 False)
          [mk_session 1 10 2] (world0 0))
     = (\<lparr>key = [], status = Awaiting ErrorDelay, stack = []\<rparr>,
        \<lparr>sessionCount = 0, lastSessionTime = None,
         trace = [Call (StartMatch (mk_agent [0x41] 1 False) (mk_session 1 10 2)),
                  Log (ErrorRetrying TypeError),
                  Call (Delay 10000 (ErrorRetryingMsg TypeError))]\<rparr>)
   \<and> run host0 (backoff_schedule [(1, Nullish, 2)] @ [(3, Resolved (Result True))])
       (for_sessions host0 [] [] [mk_session 1 10 2] (mk_agent [0x41] 1 False)
          [mk_session 1 10 2] (world0 0))
     = (\<lparr>key = [], status = Awaiting GetBalance, stack = [Line167]\<rparr>,
        \<lparr>sessionCount = 0, lastSessionTime = None,
         trace = [Call (StartMatch (mk_agent [0x41] 1 False) (mk_session 1 10 2)),
                  Log (ErrorRetrying TypeError),
                  Call (Delay 10000 (ErrorRetryingMsg TypeError)),
                  NewWallet [], Call WalletConnect, Call WalletGetBalance]\<rparr>)"
  by code_simp

text \<open>
  C1, amended.  For a session whose type is the one of a target agent
  without automation, and a start function that throws N times, each time a
  value other than \<^verbatim>\<open>null\<close> and \<^verbatim>\<open>undefined\<close> (and each backoff wait
  resolving), and then resolves with a truthy value: if N < 3 the retry loop
  reaches the success (line 119 increments the counter and line 121 logs
  it; the function then awaits the wait that follows a success, or has
  gone through \<^verbatim>\<open>handleSessionLimit\<close>) after exactly N + 1 calls of the
  start function and exactly N backoff waits, each of 10000 ms; if N >= 3 it
  makes exactly 3 calls and 2 backoff waits, logs the third failure and the
  line "Failed to start match after 3 attempts. Skipping...", and goes on
  with the next session of the \<^verbatim>\<open>for\<close> loop: no error reaches the outer
  \<^verbatim>\<open>catch\<close>.  A start function that throws \<^verbatim>\<open>null\<close> or \<^verbatim>\<open>undefined\<close>
  ends the loop at that call: the error of line 135 reaches the outer
  \<^verbatim>\<open>catch\<close>, with no backoff wait and no further call.
\<close>

theorem retry_loop_attempts:
  assumes m: "session_type.sessionType (agent.sessionType ta)
               = session_type.sessionType (session.sessionType s)"
      and a: "\<not> automationEnabled ta"
  shows "(truthy v \<and> length fs < 3 \<and> (\<forall>f\<in>set fs. message_readable (fst (snd f))) \<longrightarrow>
           (\<exists>new.
              run h (backoff_schedule fs @ [(now, Resolved v)])
                  (for_sessions h k stk all ta (s # ss) w)
                = (\<lparr>key = k,
                    status = Awaiting
                      (if 6 \<le> sessionCount w + 1
                       then (if 0 < remainingTime h now
                             then LimitReset \<lparr>sessions = all, targetAgent = ta, session = s,
                                              rest = ss, retryCount = length fs\<rparr>
                             else Connect)
                       else NextMatchDelay \<lparr>sessions = all, targetAgent = ta, session = s,
                                             rest = ss, retryCount = length fs\<rparr>),
                    stack =
                      (if 6 \<le> sessionCount w + 1 \<and> remainingTime h now \<le> 0
                       then Line127 \<lparr>sessions = all, targetAgent = ta, session = s,
                                     rest = ss, retryCount = length fs\<rparr> # stk
                       else stk)\<rparr>,
                   w\<lparr>sessionCount :=
                       (if 6 \<le> sessionCount w + 1 \<and> remainingTime h now \<le> 0 then 0
                        else sessionCount w + 1),
                     lastSessionTime :=
                       (if 6 \<le> sessionCount w + 1 \<and> remainingTime h now \<le> 0 then None
                        else Some now),
                     trace := trace w @ new\<rparr>)
              \<and> filter is_start_call new
                  = replicate (length fs + 1) (Call (start_request h ta s))
              \<and> filter is_backoff_wait new
                  = replicate (length fs) (Call (Delay 10000 BeforeRetrying))
              \<and> Log (SessionsUsed (sessionCount w + 1)) \<in> set new))
       \<and> (3 \<le> length fs \<and> (\<forall>f\<in>set (take 3 fs). message_readable (fst (snd f))) \<longrightarrow>
            run h (take 5 (backoff_schedule fs)) (for_sessions h k stk all ta (s # ss) w)
              = for_sessions h k stk all ta ss
                  (w\<lparr>trace := trace w @
                       [Call (start_request h ta s),
                        Log (Attempt 1 3 (fst (snd (fs ! 0)))), Call (Delay 10000 BeforeRetrying),
                        Call (start_request h ta s),
                        Log (Attempt 2 3 (fst (snd (fs ! 1)))), Call (Delay 10000 BeforeRetrying),
                        Call (start_request h ta s),
                        Log (Attempt 3 3 (fst (snd (fs ! 2)))), Log (FailedToStart 3)]\<rparr>)
            \<and> (\<exists>p. status (fst (run h (take 5 (backoff_schedule fs))
                                    (for_sessions h k stk all ta (s # ss) w))) = Awaiting p
                   \<and> (p = Cooldown \<or> (\<exists>lv. p = Start lv))))
       \<and> (\<not> message_readable e \<longrightarrow>
            run h [(now, Rejected e)] (for_sessions h k stk all ta (s # ss) w)
              = (\<lparr>key = k, status = Awaiting ErrorDelay, stack = stk\<rparr>,
                 w\<lparr>trace := trace w @
                      [Call (start_request h ta s),
                       Log (ErrorRetrying TypeError),
                       Call (Delay 10000 (ErrorRetryingMsg TypeError))]\<rparr>))"
proof (intro conjI impI)
  assume h: "truthy v \<and> length fs < 3 \<and> (\<forall>f\<in>set fs. message_readable (fst (snd f)))"
  let ?lv = "\<lparr>sessions = all, targetAgent = ta, session = s, rest = ss, retryCount = length fs\<rparr>"
  let ?pre = "Call (start_request h ta s)
                # concat (map (\<lambda>i. [Log (Attempt (Suc i) 3 (fst (snd (fs ! i)))),
                                      Call (Delay 10000 BeforeRetrying),
                                      Call (start_request h ta s)]) [0..<length fs])"
  let ?post = "if 6 \<le> sessionCount w + 1
               then (if 0 < remainingTime h now
                     then [Log SessionLimitReachedWaiting,
                           Log (SessionLimitWaiting (sessionCount w + 1)
                                  (remainingMinutes (remainingTime h now))),
                           Call (Delay (remainingTime h now) WaitingNextHour)]
                     else [Log SessionLimitReachedWaiting, NewWallet k, Call WalletConnect])
               else [Call (Delay 2000 BeforeNextMatch)]"
  let ?new = "?pre @ Log (SessionsUsed (sessionCount w + 1)) # ?post"
  let ?res = "(\<lparr>key = k,
                    status = Awaiting
                      (if 6 \<le> sessionCount w + 1
                       then (if 0 < remainingTime h now then LimitReset ?lv else Connect)
                       else NextMatchDelay ?lv),
                    stack =
                      (if 6 \<le> sessionCount w + 1 \<and> remainingTime h now \<le> 0
                       then Line127 ?lv # stk else stk)\<rparr>,
                   w\<lparr>sessionCount :=
                       (if 6 \<le> sessionCount w + 1 \<and> remainingTime h now \<le> 0 then 0
                        else sessionCount w + 1),
                     lastSessionTime :=
                       (if 6 \<le> sessionCount w + 1 \<and> remainingTime h now \<le> 0 then None
                        else Some now),
                     trace := trace w @ ?new\<rparr>)"
  have r: "run h (backoff_schedule fs @ [(now, Resolved v)]) (for_sessions h k stk all ta (s # ss) w)
             = started h now k stk ?lv (w\<lparr>trace := trace w @ ?pre\<rparr>)"
    using retry_loop_succeeds [OF m a] h by blast
  have st: "started h now k stk ?lv (w\<lparr>trace := trace w @ ?pre\<rparr>) = ?res"
    by (cases "6 \<le> sessionCount w + 1"; cases "0 < remainingTime h now")
       (simp_all add: started_limit started_below started_limit_no_wait)
  have f1: "filter is_start_call ?new = replicate (length fs + 1) (Call (start_request h ta s))"
    using h succeeds_events(1) [of fs h ta s "sessionCount w + 1" ?post] by simp
  have f2: "filter is_backoff_wait ?new = replicate (length fs) (Call (Delay 10000 BeforeRetrying))"
    using h succeeds_events(2) [of fs h ta s "sessionCount w + 1" ?post] by simp
  have f3: "Log (SessionsUsed (sessionCount w + 1)) \<in> set ?new"
    by simp
  have "run h (backoff_schedule fs @ [(now, Resolved v)])
                  (for_sessions h k stk all ta (s # ss) w) = ?res
        \<and> filter is_start_call ?new = replicate (length fs + 1) (Call (start_request h ta s))
        \<and> filter is_backoff_wait ?new = replicate (length fs) (Call (Delay 10000 BeforeRetrying))
        \<and> Log (SessionsUsed (sessionCount w + 1)) \<in> set ?new"
    using r st f1 f2 f3 by simp
  then show "\<exists>new.
              run h (backoff_schedule fs @ [(now, Resolved v)])
                  (for_sessions h k stk all ta (s # ss) w)
                = (\<lparr>key = k,
                    status = Awaiting
                      (if 6 \<le> sessionCount w + 1
                       then (if 0 < remainingTime h now
                             then LimitReset \<lparr>sessions = all, targetAgent = ta, session = s,
                                              rest = ss, retryCount = length fs\<rparr>
                             else Connect)
                       else NextMatchDelay \<lparr>sessions = all, targetAgent = ta, session = s,
                                             rest = ss, retryCount = length fs\<rparr>),
                    stack =
                      (if 6 \<le> sessionCount w + 1 \<and> remainingTime h now \<le> 0
                       then Line127 \<lparr>sessions = all, targetAgent = ta, session = s,
                                     rest = ss, retryCount = length fs\<rparr> # stk
                       else stk)\<rparr>,
                   w\<lparr>sessionCount :=
                       (if 6 \<le> sessionCount w + 1 \<and> remainingTime h now \<le> 0 then 0
                        else sessionCount w + 1),
                     lastSessionTime :=
                       (if 6 \<le> sessionCount w + 1 \<and> remainingTime h now \<le> 0 then None
                        else Some now),
                     trace := trace w @ new\<rparr>)
              \<and> filter is_start_call new
                  = replicate (length fs + 1) (Call (start_request h ta s))
              \<and> filter is_backoff_wait new
                  = replicate (length fs) (Call (Delay 10000 BeforeRetrying))
              \<and> Log (SessionsUsed (sessionCount w + 1)) \<in> set new"
    by (rule exI [of _ ?new])
next
  assume "3 \<le> length fs \<and> (\<forall>f\<in>set (take 3 fs). message_readable (fst (snd f)))"
  then show "run h (take 5 (backoff_schedule fs)) (for_sessions h k stk all ta (s # ss) w)
              = for_sessions h k stk all ta ss
                  (w\<lparr>trace := trace w @
                       [Call (start_request h ta s),
                        Log (Attempt 1 3 (fst (snd (fs ! 0)))), Call (Delay 10000 BeforeRetrying),
                        Call (start_request h ta s),
                        Log (Attempt 2 3 (fst (snd (fs ! 1)))), Call (Delay 10000 BeforeRetrying),
                        Call (start_request h ta s),
                        Log (Attempt 3 3 (fst (snd (fs ! 2)))), Log (FailedToStart 3)]\<rparr>)"
    using retry_loop_gives_up [OF m a] by blast
next
  assume n: "3 \<le> length fs \<and> (\<forall>f\<in>set (take 3 fs). message_readable (fst (snd f)))"
  then have g: "run h (take 5 (backoff_schedule fs)) (for_sessions h k stk all ta (s # ss) w)
              = for_sessions h k stk all ta ss
                  (w\<lparr>trace := trace w @
                       [Call (start_request h ta s),
                        Log (Attempt 1 3 (fst (snd (fs ! 0)))), Call (Delay 10000 BeforeRetrying),
                        Call (start_request h ta s),
                        Log (Attempt 2 3 (fst (snd (fs ! 1)))), Call (Delay 10000 BeforeRetrying),
                        Call (start_request h ta s),
                        Log (Attempt 3 3 (fst (snd (fs ! 2)))), Log (FailedToStart 3)]\<rparr>)"
    using retry_loop_gives_up [OF m a] by blast
  show "\<exists>p. status (fst (run h (take 5 (backoff_schedule fs))
                                    (for_sessions h k stk all ta (s # ss) w))) = Awaiting p
                   \<and> (p = Cooldown \<or> (\<exists>lv. p = Start lv))"
    unfolding g by (rule for_sessions_status)
next
  assume u: "\<not> message_readable e"
  have e: "for_sessions h k stk all ta (s # ss) w
             = (\<lparr>key = k,
                 status = Awaiting (Start \<lparr>sessions = all, targetAgent = ta, session = s,
                                          rest = ss, retryCount = 0\<rparr>),
                 stack = stk\<rparr>,
                w\<lparr>trace := trace w @ [Call (start_request h ta s)]\<rparr>)"
    using m a by (simp add: maxRetries_def emit_def)
  show "run h [(now, Rejected e)] (for_sessions h k stk all ta (s # ss) w)
              = (\<lparr>key = k, status = Awaiting ErrorDelay, stack = stk\<rparr>,
                 w\<lparr>trace := trace w @
                      [Call (start_request h ta s),
                       Log (ErrorRetrying TypeError),
                       Call (Delay 10000 (ErrorRetryingMsg TypeError))]\<rparr>)"
    unfolding e using u by (simp add: inner_catch_unreadable)
qed

theorem retry_loop_attempts_witness:
  "(\<exists>new.
      run host0 (backoff_schedule [(1, External [], 2), (3, External [], 4)]
                  @ [(5, Resolved (Result True))])
          (for_sessions host0 [] [] [mk_session 1 10 2] (mk_agent [0x41] 1 False)
             [mk_session 1 10 2] (world0 0))
        = (\<lparr>key = [], status = Awaiting (NextMatchDelay (lv0\<lparr>retryCount := 2\<rparr>)), stack = []\<rparr>,
           \<lparr>sessionCount = 1, lastSessionTime = Some 5, trace = new\<rparr>)
      \<and> filter is_start_call new
          = replicate 3 (Call (StartMatch (mk_agent [0x41] 1 False) (mk_session 1 10 2)))
      \<and> filter is_backoff_wait new = replicate 2 (Call (Delay 10000 BeforeRetrying)))
   \<and> status (fst (run host0
         (take 5 (backoff_schedule [(1, External [], 2), (3, External [], 4), (5, External [], 6)]))
         (for_sessions host0 [] [] [mk_session 1 10 2] (mk_agent [0x41] 1 False)
            [mk_session 1 10 2] (world0 0))))
       = Awaiting Cooldown
   \<and> status (fst (run host0 [(1, Rejected Nullish)]
         (for_sessions host0 [] [] [mk_session 1 10 2] (mk_agent [0x41] 1 False)
            [mk_session 1 10 2] (world0 0))))
       = Awaiting ErrorDelay"
proof -
  let ?a = "mk_agent [0x41] 1 False"
  let ?s = "mk_session 1 10 2"
  let ?fs2 = "[(1, External [], 2), (3, External [], 4)] :: (int \<times> js_error \<times> int) list"
  let ?fs3 = "[(1, External [], 2), (3, External [], 4), (5, External [], 6)]
                :: (int \<times> js_error \<times> int) list"
  have a: "session_type.sessionType (agent.sessionType ?a)
             = session_type.sessionType (session.sessionType ?s)"
    by (simp add: mk_agent_def mk_session_def)
  have b: "\<not> automationEnabled ?a"
    by (simp add: mk_agent_def)
  have d: "start_request host0 ?a ?s = StartMatch ?a ?s"
    by (simp add: start_request_def host0_def isAutoMatch_def auto_literal_def)
  note t2 = retry_loop_attempts [OF a b, where v = "Result True" and fs = ?fs2 and h = host0
              and now = 5 and k = "[]" and stk = "[]" and all = "[?s]" and ss = "[]"
              and w = "world0 0"]
  note t3 = retry_loop_attempts [OF a b, where fs = ?fs3 and h = host0
              and k = "[]" and stk = "[]" and all = "[?s]" and ss = "[]"
              and w = "world0 0"]
  note t1 = retry_loop_attempts [OF a b, where e = Nullish and h = host0 and now = 1
              and k = "[]" and stk = "[]" and all = "[?s]" and ss = "[]"
              and w = "world0 0"]
  have h2: "truthy (Result True) \<and> length ?fs2 < 3
            \<and> (\<forall>f\<in>set ?fs2. message_readable (fst (snd f)))" by simp
  have h3: "3 \<le> length ?fs3 \<and> (\<forall>f\<in>set (take 3 ?fs3). message_readable (fst (snd f)))"
    by simp
  have h1: "\<not> message_readable Nullish" by simp
  from t2 h2 obtain new where
    n: "run host0 (backoff_schedule ?fs2 @ [(5, Resolved (Result True))])
          (for_sessions host0 [] [] [?s] ?a [?s] (world0 0))
        = (\<lparr>key = [],
            status = Awaiting
              (if 6 \<le> sessionCount (world0 0) + 1
               then (if 0 < remainingTime host0 5
                     then LimitReset \<lparr>sessions = [?s], targetAgent = ?a, session = ?s,
                                      rest = [], retryCount = length ?fs2\<rparr>
                     else Connect)
               else NextMatchDelay \<lparr>sessions = [?s], targetAgent = ?a, session = ?s,
                                     rest = [], retryCount = length ?fs2\<rparr>),
            stack =
              (if 6 \<le> sessionCount (world0 0) + 1 \<and> remainingTime host0 5 \<le> 0
               then Line127 \<lparr>sessions = [?s], targetAgent = ?a, session = ?s,
                             rest = [], retryCount = length ?fs2\<rparr> # []
               else [])\<rparr>,
           (world0 0)\<lparr>sessionCount :=
               (if 6 \<le> sessionCount (world0 0) + 1 \<and> remainingTime host0 5 \<le> 0 then 0
                else sessionCount (world0 0) + 1),
             lastSessionTime :=
               (if 6 \<le> sessionCount (world0 0) + 1 \<and> remainingTime host0 5 \<le> 0 then None
                else Some 5),
             trace := trace (world0 0) @ new\<rparr>)"
    and f1: "filter is_start_call new = replicate (length ?fs2 + 1) (Call (start_request host0 ?a ?s))"
    and f2: "filter is_backoff_wait new = replicate (length ?fs2) (Call (Delay 10000 BeforeRetrying))"
    by blast
  have st: "(\<lparr>key = [],
            status = Awaiting
              (if 6 \<le> sessionCount (world0 0) + 1
               then (if 0 < remainingTime host0 5
                     then LimitReset \<lparr>sessions = [?s], targetAgent = ?a, session = ?s,
                                      rest = [], retryCount = length ?fs2\<rparr>
                     else Connect)
               else NextMatchDelay \<lparr>sessions = [?s], targetAgent = ?a, session = ?s,
                                     rest = [], retryCount = length ?fs2\<rparr>),
            stack =
              (if 6 \<le> sessionCount (world0 0) + 1 \<and> remainingTime host0 5 \<le> 0
               then Line127 \<lparr>sessions = [?s], targetAgent = ?a, session = ?s,
                             rest = [], retryCount = length ?fs2\<rparr> # []
               else [])\<rparr>,
           (world0 0)\<lparr>sessionCount :=
               (if 6 \<le> sessionCount (world0 0) + 1 \<and> remainingTime host0 5 \<le> 0 then 0
                else sessionCount (world0 0) + 1),
             lastSessionTime :=
               (if 6 \<le> sessionCount (world0 0) + 1 \<and> remainingTime host0 5 \<le> 0 then None
                else Some 5),
             trace := trace (world0 0) @ new\<rparr>)
         = (\<lparr>key = [], status = Awaiting (NextMatchDelay (lv0\<lparr>retryCount := 2\<rparr>)), stack = []\<rparr>,
           \<lparr>sessionCount = 1, lastSessionTime = Some 5, trace = new\<rparr>)"
    by (simp add: world0_def lv0_def)
  have g1: "filter is_start_call new = replicate 3 (Call (StartMatch ?a ?s))"
    using f1 unfolding d by (simp add: numeral_3_eq_3)
  have g2: "filter is_backoff_wait new = replicate 2 (Call (Delay 10000 BeforeRetrying))"
    using f2 by (simp add: numeral_2_eq_2)
  have first: "\<exists>new.
      run host0 (backoff_schedule ?fs2 @ [(5, Resolved (Result True))])
          (for_sessions host0 [] [] [?s] ?a [?s] (world0 0))
        = (\<lparr>key = [], status = Awaiting (NextMatchDelay (lv0\<lparr>retryCount := 2\<rparr>)), stack = []\<rparr>,
           \<lparr>sessionCount = 1, lastSessionTime = Some 5, trace = new\<rparr>)
      \<and> filter is_start_call new = replicate 3 (Call (StartMatch ?a ?s))
      \<and> filter is_backoff_wait new = replicate 2 (Call (Delay 10000 BeforeRetrying))"
    using n g1 g2 unfolding st by blast
  from t3 h3 have r3: "run host0 (take 5 (backoff_schedule ?fs3))
          (for_sessions host0 [] [] [?s] ?a [?s] (world0 0))
      = for_sessions host0 [] [] [?s] ?a []
          ((world0 0)\<lparr>trace := trace (world0 0) @
               [Call (start_request host0 ?a ?s),
                Log (Attempt 1 3 (fst (snd (?fs3 ! 0)))), Call (Delay 10000 BeforeRetrying),
                Call (start_request host0 ?a ?s),
                Log (Attempt 2 3 (fst (snd (?fs3 ! 1)))), Call (Delay 10000 BeforeRetrying),
                Call (start_request host0 ?a ?s),
                Log (Attempt 3 3 (fst (snd (?fs3 ! 2)))), Log (FailedToStart 3)]\<rparr>)"
    by blast
  have second: "status (fst (run host0 (take 5 (backoff_schedule ?fs3))
          (for_sessions host0 [] [] [?s] ?a [?s] (world0 0)))) = Awaiting Cooldown"
    unfolding r3 by simp
  from t1 h1 have "run host0 [(1, Rejected Nullish)]
          (for_sessions host0 [] [] [?s] ?a [?s] (world0 0))
      = (\<lparr>key = [], status = Awaiting ErrorDelay, stack = []\<rparr>,
         (world0 0)\<lparr>trace := trace (world0 0) @
              [Call (start_request host0 ?a ?s),
               Log (ErrorRetrying TypeError),
               Call (Delay 10000 (ErrorRetryingMsg TypeError))]\<rparr>)"
    by blast
  then have third: "status (fst (run host0 [(1, Rejected Nullish)]
          (for_sessions host0 [] [] [?s] ?a [?s] (world0 0)))) = Awaiting ErrorDelay"
    by (simp only: fst_conv thread.simps)
  from first second third show ?thesis by blast
qed

section \<open>Failures of the key source in \<^verbatim>\<open>startBot\<close>\<close>

lemma sys_step_running:
  "supervisor s = Running p \<Longrightarrow> sys_step h Bot now r s = bot_step h p now r s"
  "supervisor s = Running p \<Longrightarrow> sys_step h (Wallet i) now r s = wallet_step h i now r s"
  by (simp_all add: sys_step_def)

lemma loadKeys_fails:
  "\<forall>data. r \<noteq> Resolved (FileText data) \<Longrightarrow> loadKeys r = Inl CreateDataTxt"
  by (cases r) (auto simp: loadKeys_def split: payload.splits)

text \<open>
  C4, as the claim states it, fails.  With the key source missing (the read
  rejects), and with a key source of white space only (no key), the process
  has not exited after \<^verbatim>\<open>startBot\<close> has handled the failure: \<^verbatim>\<open>startBot\<close>
  awaits the delay of line 187, and when that resolves it has logged, waited
  and started again with a new read of the file.
\<close>

theorem startBot_does_not_exit_on_key_failure:
  "supervisor (sys_step host0 Bot 0 (Rejected (External [])) boot) = Running RestartDelay
   \<and> supervisor (sys_step host0 Bot 0 (Resolved (FileText [0x20, 0x0A])) boot) = Running RestartDelay
   \<and> supervisor (sys_run host0 [(Bot, 0, Rejected (External [])), (Bot, 5000, Resolved Unit)] boot)
       = Running ReadKeys
   \<and> trace (world (sys_run host0 [(Bot, 0, Rejected (External [])), (Bot, 5000, Resolved Unit)] boot))
       = [Display DisplayInit, Log StartingBot, Call ReadFile,
          Log (CriticalError CreateDataTxt), Call (Delay 5000 RestartingBot),
          Display DisplayInit, Log StartingBot, Call ReadFile]"
  by (simp add: boot_def sys_step_def bot_step_def startBot_loaded_def loadKeys_def
        startBot_catch_def startBot_def emit_def key_lines_def LF_def trim_def truthy_string_def
        isWhiteSpace_def)

text \<open>
  C4, amended.  If the key source is missing or unreadable, or the loaded key
  list is empty, \<^verbatim>\<open>startBot\<close> does not exit: it logs a critical error with
  the message of the failure and awaits a delay of 5000 ms; when the delay
  resolves it runs \<^verbatim>\<open>startBot\<close> again, which reads the key source again.
  The process exits, with status 1, only when that delay rejects.  (Both
  failures are \<^verbatim>\<open>Error\<close> objects with a message.  The \<^verbatim>\<open>catch\<close> of
  \<^verbatim>\<open>startBot\<close> handles every error whose message it can read in this
  way; an error that is \<^verbatim>\<open>null\<close> or \<^verbatim>\<open>undefined\<close>, which neither failure
  of the key source is, makes line 186 throw, and then the process exits.)
\<close>

theorem startBot_restarts_on_key_failure:
  "(supervisor s = Running ReadKeys \<and> (\<forall>data. r \<noteq> Resolved (FileText data)) \<longrightarrow>
      sys_step h Bot now r s = startBot_catch CreateDataTxt s)
   \<and> (supervisor s = Running ReadKeys \<and> key_lines data = [] \<longrightarrow>
        sys_step h Bot now (Resolved (FileText data)) s = startBot_catch NoPrivateKeysFound s)
   \<and> startBot_catch CreateDataTxt s =
        s\<lparr>supervisor := Running RestartDelay,
          world := (world s)\<lparr>trace := trace (world s)
                      @ [Log (CriticalError CreateDataTxt), Call (Delay 5000 RestartingBot)]\<rparr>\<rparr>
   \<and> startBot_catch NoPrivateKeysFound s =
        s\<lparr>supervisor := Running RestartDelay,
          world := (world s)\<lparr>trace := trace (world s)
                      @ [Log (CriticalError NoPrivateKeysFound),
                         Call (Delay 5000 RestartingBot)]\<rparr>\<rparr>
   \<and> (message_readable e' \<longrightarrow>
        startBot_catch e' s =
          s\<lparr>supervisor := Running RestartDelay,
            world := (world s)\<lparr>trace := trace (world s)
                        @ [Log (CriticalError e'), Call (Delay 5000 RestartingBot)]\<rparr>\<rparr>)
   \<and> (\<not> message_readable e' \<longrightarrow>
        startBot_catch e' s =
          s\<lparr>supervisor := Exited 1,
            world := (world s)\<lparr>trace := trace (world s)
                        @ [Log (FatalError TypeError), Exit 1]\<rparr>\<rparr>)
   \<and> (supervisor s = Running RestartDelay \<longrightarrow>
        sys_step h Bot now (Resolved v) s =
          s\<lparr>supervisor := Running ReadKeys,
            world := (world s)\<lparr>trace := trace (world s)
                        @ [Display DisplayInit, Log StartingBot, Call ReadFile]\<rparr>\<rparr>)
   \<and> (supervisor s = Running RestartDelay \<longrightarrow>
        sys_step h Bot now (Rejected e) s =
          s\<lparr>supervisor := Exited 1,
            world := (world s)\<lparr>trace := trace (world s) @ [Log (FatalError e), Exit 1]\<rparr>\<rparr>)"
proof -
  have 1: "supervisor s = Running ReadKeys \<and> (\<forall>data. r \<noteq> Resolved (FileText data)) \<longrightarrow>
      sys_step h Bot now r s = startBot_catch CreateDataTxt s"
    by (simp add: sys_step_running bot_step_def startBot_loaded_def loadKeys_fails)
  have 2: "supervisor s = Running ReadKeys \<and> key_lines data = [] \<longrightarrow>
        sys_step h Bot now (Resolved (FileText data)) s = startBot_catch NoPrivateKeysFound s"
    by (simp add: sys_step_running bot_step_def startBot_loaded_def loadKeys_def)
  have 3: "startBot_catch CreateDataTxt s =
        s\<lparr>supervisor := Running RestartDelay,
          world := (world s)\<lparr>trace := trace (world s)
                      @ [Log (CriticalError CreateDataTxt), Call (Delay 5000 RestartingBot)]\<rparr>\<rparr>"
    "startBot_catch NoPrivateKeysFound s =
        s\<lparr>supervisor := Running RestartDelay,
          world := (world s)\<lparr>trace := trace (world s)
                      @ [Log (CriticalError NoPrivateKeysFound),
                         Call (Delay 5000 RestartingBot)]\<rparr>\<rparr>"
    "message_readable e' \<longrightarrow>
        startBot_catch e' s =
          s\<lparr>supervisor := Running RestartDelay,
            world := (world s)\<lparr>trace := trace (world s)
                        @ [Log (CriticalError e'), Call (Delay 5000 RestartingBot)]\<rparr>\<rparr>"
    "\<not> message_readable e' \<longrightarrow>
        startBot_catch e' s =
          s\<lparr>supervisor := Exited 1,
            world := (world s)\<lparr>trace := trace (world s)
                        @ [Log (FatalError TypeError), Exit 1]\<rparr>\<rparr>"
    by (simp_all add: startBot_catch_def fatal_def emit_def)
  have 4: "supervisor s = Running RestartDelay \<longrightarrow>
        sys_step h Bot now (Resolved v) s =
          s\<lparr>supervisor := Running ReadKeys,
            world := (world s)\<lparr>trace := trace (world s)
                        @ [Display DisplayInit, Log StartingBot, Call ReadFile]\<rparr>\<rparr>"
    by (simp add: sys_step_running bot_step_def startBot_def emit_def)
  have 5: "supervisor s = Running RestartDelay \<longrightarrow>
        sys_step h Bot now (Rejected e) s =
          s\<lparr>supervisor := Exited 1,
            world := (world s)\<lparr>trace := trace (world s) @ [Log (FatalError e), Exit 1]\<rparr>\<rparr>"
    by (simp add: sys_step_running bot_step_def fatal_def emit_def)
  from 1 2 3 4 5 show ?thesis by blast
qed

theorem startBot_restarts_on_key_failure_witness:
  "sys_step host0 Bot 0 (Rejected (External [])) boot = startBot_catch CreateDataTxt boot
   \<and> sys_step host0 Bot 0 (Resolved (FileText [0x20, 0x0A])) boot
       = startBot_catch NoPrivateKeysFound boot
   \<and> supervisor (sys_step host0 Bot 1 (Resolved Unit) (startBot_catch CreateDataTxt boot))
       = Running ReadKeys
   \<and> supervisor (sys_step host0 Bot 1 (Rejected (External [])) (startBot_catch CreateDataTxt boot))
       = Exited 1
   \<and> supervisor (startBot_catch (External []) boot) = Running RestartDelay
   \<and> supervisor (startBot_catch Nullish boot) = Exited 1"
proof -
  have b: "supervisor boot = Running ReadKeys"
    by (simp add: boot_def startBot_def)
  have k: "key_lines [0x20, 0x0A] = []"
    by (simp add: key_lines_def LF_def trim_def truthy_string_def isWhiteSpace_def)
  have c: "supervisor (startBot_catch CreateDataTxt boot) = Running RestartDelay"
    by (simp add: startBot_catch_def)
  have n: "\<forall>data. Rejected (External []) \<noteq> Resolved (FileText data)"
    by simp
  note t1 = startBot_restarts_on_key_failure [where s = boot and r = "Rejected (External [])" and h = host0 and now = 0
                  and data = "[0x20, 0x0A]"]
  note t2 = startBot_restarts_on_key_failure [where s = "startBot_catch CreateDataTxt boot" and h = host0 and now = 1
                  and v = Unit and e = "External []"]
  note t3 = startBot_restarts_on_key_failure [where s = boot and e' = "External []"]
  note t4 = startBot_restarts_on_key_failure [where s = boot and e' = Nullish]
  have m: "message_readable (External [])" "\<not> message_readable Nullish"
    by simp_all
  from t3 m have "startBot_catch (External []) boot =
          boot\<lparr>supervisor := Running RestartDelay,
            world := (world boot)\<lparr>trace := trace (world boot)
                        @ [Log (CriticalError (External [])), Call (Delay 5000 RestartingBot)]\<rparr>\<rparr>"
    by blast
  then have 5: "supervisor (startBot_catch (External []) boot) = Running RestartDelay"
    by simp
  from t4 m have "startBot_catch Nullish boot =
          boot\<lparr>supervisor := Exited 1,
            world := (world boot)\<lparr>trace := trace (world boot)
                        @ [Log (FatalError TypeError), Exit 1]\<rparr>\<rparr>"
    by blast
  then have 6: "supervisor (startBot_catch Nullish boot) = Exited 1"
    by simp
  from t1 b n have 1: "sys_step host0 Bot 0 (Rejected (External [])) boot
                         = startBot_catch CreateDataTxt boot"
    by blast
  from t1 b k have 2: "sys_step host0 Bot 0 (Resolved (FileText [0x20, 0x0A])) boot
                         = startBot_catch NoPrivateKeysFound boot"
    by blast
  from t2 c have "sys_step host0 Bot 1 (Resolved Unit) (startBot_catch CreateDataTxt boot) =
          (startBot_catch CreateDataTxt boot)\<lparr>supervisor := Running ReadKeys,
            world := (world (startBot_catch CreateDataTxt boot))\<lparr>trace := trace (world (startBot_catch CreateDataTxt boot))
                        @ [Display DisplayInit, Log StartingBot, Call ReadFile]\<rparr>\<rparr>"
    by blast
  then have 3: "supervisor (sys_step host0 Bot 1 (Resolved Unit) (startBot_catch CreateDataTxt boot))
       = Running ReadKeys"
    by simp
  from t2 c have "sys_step host0 Bot 1 (Rejected (External [])) (startBot_catch CreateDataTxt boot) =
          (startBot_catch CreateDataTxt boot)\<lparr>supervisor := Exited 1,
            world := (world (startBot_catch CreateDataTxt boot))\<lparr>trace := trace (world (startBot_catch CreateDataTxt boot)) @ [Log (FatalError (External [])), Exit 1]\<rparr>\<rparr>"
    by blast
  then have 4: "supervisor (sys_step host0 Bot 1 (Rejected (External [])) (startBot_catch CreateDataTxt boot))
       = Exited 1"
    by simp
  from 1 2 3 4 5 6 show ?thesis by blast
qed

section \<open>Several wallets\<close>

lemma wallet_step_awaiting:
  assumes "i < length (wallets s)"
      and "wallets s ! i = \<lparr>key = k, status = Awaiting p, stack = stk\<rparr>"
      and "\<exists>q. status (fst (resume h now r k stk p (world s))) = Awaiting q"
  shows "wallet_step h i now r s =
           s\<lparr>world := snd (resume h now r k stk p (world s)),
             wallets := (wallets s)[i := fst (resume h now r k stk p (world s))]\<rparr>"
  using assms by (auto simp: wallet_step_def Let_def)

lemma started_awaits:
  "\<exists>q. status (fst (started h now k stk lv w)) = Awaiting q"
  by (simp add: started_status)

lemma runWallet_awaits:
  "\<exists>q. status (fst (runWallet h now k stk w)) = Awaiting q"
  by (cases "6 \<le> sessionCount w"; cases "0 < remainingTime h now")
     (simp_all add: runWallet_gate runWallet_connect runWallet_gate_no_wait)

text \<open>
  C7.  The session counter and the time of the last start are one pair of
  variables of the process, shared by all wallets that run at the same time.
  In any state of the process, for any two wallets: a truthy start result
  of one wallet adds 1 to the counter of the process; the gate at the
  head of \<^verbatim>\<open>runWallet\<close> of the other wallet reads that same counter (at 6 or
  more it waits for the reset, below 6 it connects); and when the counter is
  at 5, the start of the one wallet makes the other wallet, which has
  started nothing, wait at its gate.  (Where \<^verbatim>\<open>handleSessionLimit\<close> finds a
  duration that is not positive it does not wait but resets the counter at
  once, for all wallets: then the wallet connects and the counter is 0.)
\<close>

theorem sessionCount_shared_by_wallets:
  assumes run: "supervisor s = Running p"
      and i: "i < length (wallets s)"
      and j: "j < length (wallets s)"
      and ij: "i \<noteq> j"
      and wi: "wallets s ! i = \<lparr>key = ki, status = Awaiting (Start lv), stack = stki\<rparr>"
      and wj: "wallets s ! j = \<lparr>key = kj, status = Awaiting Cooldown, stack = stkj\<rparr>"
      and v: "truthy v"
  shows "sessionCount (world (sys_step h (Wallet i) now (Resolved v) s))
           = (if 6 \<le> sessionCount (world s) + 1 \<and> remainingTime h now \<le> 0 then 0
              else sessionCount (world s) + 1)
       \<and> (6 \<le> sessionCount (world s) \<longrightarrow>
            status (wallets (sys_step h (Wallet j) now' (Resolved v') s) ! j)
              = Awaiting (if 0 < remainingTime h now' then GateReset else Connect)
            \<and> sessionCount (world (sys_step h (Wallet j) now' (Resolved v') s))
              = (if 0 < remainingTime h now' then sessionCount (world s) else 0))
       \<and> (sessionCount (world s) < 6 \<longrightarrow>
            status (wallets (sys_step h (Wallet j) now' (Resolved v') s) ! j) = Awaiting Connect)
       \<and> (sessionCount (world s) = 5 \<longrightarrow>
            status (wallets (sys_run h [(Wallet i, now, Resolved v), (Wallet j, now', Resolved v')] s) ! j)
              = Awaiting (if 0 < remainingTime h now \<and> 0 < remainingTime h now' then GateReset
                          else Connect)
            \<and> status (wallets (sys_run h [(Wallet i, now, Resolved v), (Wallet j, now', Resolved v')] s) ! i)
              = Awaiting (if 0 < remainingTime h now then LimitReset lv else Connect)
            \<and> sessionCount (world (sys_run h [(Wallet i, now, Resolved v), (Wallet j, now', Resolved v')] s))
              = (if 0 < remainingTime h now \<and> 0 < remainingTime h now' then 6 else 0))"
proof -
  let ?s1 = "sys_step h (Wallet i) now (Resolved v) s"
  have s1: "?s1 = s\<lparr>world := snd (started h now ki stki lv (world s)),
                     wallets := (wallets s)[i := fst (started h now ki stki lv (world s))]\<rparr>"
    using run v wallet_step_awaiting [OF i wi, of h now "Resolved v"] started_awaits
    by (simp add: sys_step_running)
  have a: "sessionCount (world ?s1)
             = (if 6 \<le> sessionCount (world s) + 1 \<and> remainingTime h now \<le> 0 then 0
                else sessionCount (world s) + 1)"
    unfolding s1 by simp
  have sj: "\<And>s'. supervisor s' = Running p \<Longrightarrow> j < length (wallets s') \<Longrightarrow>
              wallets s' ! j = \<lparr>key = kj, status = Awaiting Cooldown, stack = stkj\<rparr> \<Longrightarrow>
              sys_step h (Wallet j) now' (Resolved v') s' =
                s'\<lparr>world := snd (runWallet h now' kj (Line161 # stkj) (world s')),
                   wallets := (wallets s')[j := fst (runWallet h now' kj (Line161 # stkj) (world s'))]\<rparr>"
  proof -
    fix s' :: system
    assume r: "supervisor s' = Running p" and l: "j < length (wallets s')"
      and w: "wallets s' ! j = \<lparr>key = kj, status = Awaiting Cooldown, stack = stkj\<rparr>"
    show "sys_step h (Wallet j) now' (Resolved v') s' =
                s'\<lparr>world := snd (runWallet h now' kj (Line161 # stkj) (world s')),
                   wallets := (wallets s')[j := fst (runWallet h now' kj (Line161 # stkj) (world s'))]\<rparr>"
      using r wallet_step_awaiting [OF l w, of h now' "Resolved v'"] runWallet_awaits
      by (simp add: sys_step_running)
  qed
  have gate: "\<And>k stk w. 6 \<le> sessionCount w \<Longrightarrow>
                status (fst (runWallet h now' k stk w))
                  = Awaiting (if 0 < remainingTime h now' then GateReset else Connect)"
  proof -
    fix k stk and w :: world
    assume "6 \<le> sessionCount w"
    then show "status (fst (runWallet h now' k stk w))
                  = Awaiting (if 0 < remainingTime h now' then GateReset else Connect)"
      by (cases "0 < remainingTime h now'") (simp_all add: runWallet_gate runWallet_gate_no_wait)
  qed
  have b: "6 \<le> sessionCount (world s) \<longrightarrow>
            status (wallets (sys_step h (Wallet j) now' (Resolved v') s) ! j)
              = Awaiting (if 0 < remainingTime h now' then GateReset else Connect)
            \<and> sessionCount (world (sys_step h (Wallet j) now' (Resolved v') s))
              = (if 0 < remainingTime h now' then sessionCount (world s) else 0)"
    using j by (simp add: sj [OF run j wj] gate)
  have c: "sessionCount (world s) < 6 \<longrightarrow>
            status (wallets (sys_step h (Wallet j) now' (Resolved v') s) ! j) = Awaiting Connect"
    using j by (simp add: sj [OF run j wj] runWallet_connect)
  have d: "sessionCount (world s) = 5 \<longrightarrow>
            status (wallets (sys_run h [(Wallet i, now, Resolved v), (Wallet j, now', Resolved v')] s) ! j)
              = Awaiting (if 0 < remainingTime h now \<and> 0 < remainingTime h now' then GateReset
                          else Connect)
            \<and> status (wallets (sys_run h [(Wallet i, now, Resolved v), (Wallet j, now', Resolved v')] s) ! i)
              = Awaiting (if 0 < remainingTime h now then LimitReset lv else Connect)
            \<and> sessionCount (world (sys_run h [(Wallet i, now, Resolved v), (Wallet j, now', Resolved v')] s))
              = (if 0 < remainingTime h now \<and> 0 < remainingTime h now' then 6 else 0)"
  proof
    assume five: "sessionCount (world s) = 5"
    have r1: "supervisor ?s1 = Running p" unfolding s1 using run by simp
    have l1: "j < length (wallets ?s1)" unfolding s1 using j by simp
    have il1: "i < length (wallets ?s1)" unfolding s1 using i by simp
    have w1: "wallets ?s1 ! j = \<lparr>key = kj, status = Awaiting Cooldown, stack = stkj\<rparr>"
      unfolding s1 using ij wj by simp
    have wi1: "status (wallets ?s1 ! i)
                 = Awaiting (if 0 < remainingTime h now then LimitReset lv else Connect)"
      unfolding s1 using i five by (simp add: started_status)
    have c1: "sessionCount (world ?s1) = (if 0 < remainingTime h now then 6 else 0)"
      using a five by simp
    have run2: "sys_run h [(Wallet i, now, Resolved v), (Wallet j, now', Resolved v')] s
                  = sys_step h (Wallet j) now' (Resolved v') ?s1"
      by simp
    have sj1: "status (fst (runWallet h now' kj (Line161 # stkj) (world ?s1)))
                 = Awaiting (if 0 < remainingTime h now \<and> 0 < remainingTime h now' then GateReset
                             else Connect)"
    proof (cases "0 < remainingTime h now")
      case True
      with c1 have "6 \<le> sessionCount (world ?s1)" by simp
      from gate [OF this] True show ?thesis by simp
    next
      case False
      with c1 have "sessionCount (world ?s1) < 6" by simp
      then show ?thesis using False by (simp add: runWallet_connect)
    qed
    have cj1: "sessionCount (snd (runWallet h now' kj (Line161 # stkj) (world ?s1)))
                 = (if 0 < remainingTime h now \<and> 0 < remainingTime h now' then 6 else 0)"
      using c1 by simp
    show "status (wallets (sys_run h [(Wallet i, now, Resolved v), (Wallet j, now', Resolved v')] s) ! j)
              = Awaiting (if 0 < remainingTime h now \<and> 0 < remainingTime h now' then GateReset
                          else Connect)
            \<and> status (wallets (sys_run h [(Wallet i, now, Resolved v), (Wallet j, now', Resolved v')] s) ! i)
              = Awaiting (if 0 < remainingTime h now then LimitReset lv else Connect)
            \<and> sessionCount (world (sys_run h [(Wallet i, now, Resolved v), (Wallet j, now', Resolved v')] s))
              = (if 0 < remainingTime h now \<and> 0 < remainingTime h now' then 6 else 0)"
      unfolding run2 sj [OF r1 l1 w1]
      using l1 il1 ij wi1 sj1 cj1 by simp
  qed
  from a b c d show ?thesis by blast
qed

lemma mk_simps [simp]:
  "session_type.sessionType (session.sessionType (mk_session ty d n)) = ty"
  "session_type.sessionType (agent.sessionType (mk_agent nm ty a)) = ty"
  "automationEnabled (mk_agent nm ty a) = a"
  "name (mk_agent nm ty a) = nm"
  by (simp_all add: mk_session_def mk_agent_def)


lemma two_wallets_state:
  "supervisor (sys_run host0 two_wallets boot) = Running AwaitAll
   \<and> wallets (sys_run host0 two_wallets boot) =
       [\<lparr>key = [0x41],
         status = Awaiting (Start \<lparr>sessions = replicate 6 (mk_session 1 10 2),
                    targetAgent = mk_agent [0x41] 1 False, session = mk_session 1 10 2,
                    rest = [], retryCount = 0\<rparr>),
         stack = []\<rparr>,
        \<lparr>key = [0x42], status = Awaiting Cooldown, stack = []\<rparr>]
   \<and> sessionCount (world (sys_run host0 two_wallets boot)) = 5"
  by code_simp

theorem sessionCount_shared_by_wallets_witness:
  "sessionCount (world (sys_run host0 two_wallets boot)) = 5
   \<and> status (wallets (sys_run host0 two_wallets boot) ! 1) = Awaiting Cooldown
   \<and> status (wallets (sys_run host0
                  [(Wallet 0, 23, Resolved (Result True)), (Wallet 1, 24, Resolved Unit)]
                  (sys_run host0 two_wallets boot)) ! 1) = Awaiting GateReset
   \<and> sessionCount (world (sys_run host0
                  [(Wallet 0, 23, Resolved (Result True)), (Wallet 1, 24, Resolved Unit)]
                  (sys_run host0 two_wallets boot))) = 6"
proof -
  let ?s = "sys_run host0 two_wallets boot"
  let ?lv = "\<lparr>sessions = replicate 6 (mk_session 1 10 2),
              targetAgent = mk_agent [0x41] 1 False, session = mk_session 1 10 2,
              rest = [], retryCount = 0\<rparr>"
  note st = two_wallets_state
  from st have r: "supervisor ?s = Running AwaitAll" by blast
  from st have w: "wallets ?s =
       [\<lparr>key = [0x41], status = Awaiting (Start ?lv), stack = []\<rparr>,
        \<lparr>key = [0x42], status = Awaiting Cooldown, stack = []\<rparr>]" by blast
  from st have c: "sessionCount (world ?s) = 5" by blast
  have i: "0 < length (wallets ?s)" and j: "1 < length (wallets ?s)"
    unfolding w by simp_all
  have ij: "(0::nat) \<noteq> 1" by simp
  have wi: "wallets ?s ! 0 = \<lparr>key = [0x41], status = Awaiting (Start ?lv), stack = []\<rparr>"
    unfolding w by simp
  have wj: "wallets ?s ! 1 = \<lparr>key = [0x42], status = Awaiting Cooldown, stack = []\<rparr>"
    unfolding w by simp
  have v: "truthy (Result True)" by simp
  note t = sessionCount_shared_by_wallets [OF r i j ij wi wj v, of host0 23 24 Unit]
  have pos: "0 < remainingTime host0 23" "0 < remainingTime host0 24"
    by (rule remainingTime_host0_pos)+
  from t c pos have "status (wallets (sys_run host0
                  [(Wallet 0, 23, Resolved (Result True)), (Wallet 1, 24, Resolved Unit)] ?s) ! 1)
                  = Awaiting GateReset
     \<and> sessionCount (world (sys_run host0
                  [(Wallet 0, 23, Resolved (Result True)), (Wallet 1, 24, Resolved Unit)] ?s)) = 6"
    by simp
  moreover have "status (wallets ?s ! 1) = Awaiting Cooldown"
    unfolding wj by simp
  ultimately show ?thesis using c by blast
qed

section \<open>The quota with several wallets, and a missing target agent\<close>

text \<open>
  With two wallets the counter can pass 6: when both await a start call with
  the counter at 5 and both calls resolve with a truthy value (at times at
  which \<^verbatim>\<open>handleSessionLimit\<close> finds a positive duration), the counter is 7,
  and both wallets await the reset.
\<close>

theorem two_pending_starts_pass_quota:
  assumes run: "supervisor s = Running p"
      and i: "i < length (wallets s)"
      and j: "j < length (wallets s)"
      and ij: "i \<noteq> j"
      and wi: "wallets s ! i = \<lparr>key = ki, status = Awaiting (Start lvi), stack = stki\<rparr>"
      and wj: "wallets s ! j = \<lparr>key = kj, status = Awaiting (Start lvj), stack = stkj\<rparr>"
      and v: "truthy v" and v': "truthy v'"
      and five: "sessionCount (world s) = 5"
      and pos: "0 < remainingTime h now" "0 < remainingTime h now'"
  shows "sessionCount (world (sys_run h [(Wallet i, now, Resolved v), (Wallet j, now', Resolved v')] s)) = 7
       \<and> status (wallets (sys_run h [(Wallet i, now, Resolved v), (Wallet j, now', Resolved v')] s) ! i)
           = Awaiting (LimitReset lvi)
       \<and> status (wallets (sys_run h [(Wallet i, now, Resolved v), (Wallet j, now', Resolved v')] s) ! j)
           = Awaiting (LimitReset lvj)"
proof -
  let ?s1 = "sys_step h (Wallet i) now (Resolved v) s"
  have s1: "?s1 = s\<lparr>world := snd (started h now ki stki lvi (world s)),
                     wallets := (wallets s)[i := fst (started h now ki stki lvi (world s))]\<rparr>"
    using run v wallet_step_awaiting [OF i wi, of h now "Resolved v"] started_awaits
    by (simp add: sys_step_running)
  have r1: "supervisor ?s1 = Running p" unfolding s1 using run by simp
  have l1: "j < length (wallets ?s1)" unfolding s1 using j by simp
  have il1: "i < length (wallets ?s1)" unfolding s1 using i by simp
  have w1: "wallets ?s1 ! j = \<lparr>key = kj, status = Awaiting (Start lvj), stack = stkj\<rparr>"
    unfolding s1 using ij wj by simp
  have wi1: "status (wallets ?s1 ! i) = Awaiting (LimitReset lvi)"
    unfolding s1 using i five pos by (simp add: started_status)
  have c1: "sessionCount (world ?s1) = 6" unfolding s1 using five pos by simp
  have s2: "sys_step h (Wallet j) now' (Resolved v') ?s1
              = ?s1\<lparr>world := snd (started h now' kj stkj lvj (world ?s1)),
                     wallets := (wallets ?s1)[j := fst (started h now' kj stkj lvj (world ?s1))]\<rparr>"
    using r1 v' wallet_step_awaiting [OF l1 w1, of h now' "Resolved v'"] started_awaits
    by (simp add: sys_step_running)
  have run2: "sys_run h [(Wallet i, now, Resolved v), (Wallet j, now', Resolved v')] s
                = sys_step h (Wallet j) now' (Resolved v') ?s1"
    by simp
  show ?thesis
    unfolding run2 s2 using l1 il1 ij wi1 c1 pos by (simp add: started_status)
qed

lemma two_starting_state:
  "supervisor (sys_run host0 two_starting boot) = Running AwaitAll
   \<and> wallets (sys_run host0 two_starting boot) =
       [\<lparr>key = [0x41],
         status = Awaiting (Start \<lparr>sessions = replicate 6 (mk_session 1 10 2),
                    targetAgent = mk_agent [0x41] 1 False, session = mk_session 1 10 2,
                    rest = [], retryCount = 0\<rparr>),
         stack = []\<rparr>,
        \<lparr>key = [0x42],
         status = Awaiting (Start \<lparr>sessions = [mk_session 1 10 2],
                    targetAgent = mk_agent [0x41] 1 False, session = mk_session 1 10 2,
                    rest = [], retryCount = 0\<rparr>),
         stack = []\<rparr>]
   \<and> sessionCount (world (sys_run host0 two_starting boot)) = 5"
  by code_simp

theorem two_pending_starts_pass_quota_witness:
  "sessionCount (world (sys_run host0 two_starting boot)) = 5
   \<and> sessionCount (world (sys_run host0
                  [(Wallet 0, 23, Resolved (Result True)), (Wallet 1, 24, Resolved (Result True))]
                  (sys_run host0 two_starting boot))) = 7"
proof -
  let ?s = "sys_run host0 two_starting boot"
  let ?lv0 = "\<lparr>sessions = replicate 6 (mk_session 1 10 2),
              targetAgent = mk_agent [0x41] 1 False, session = mk_session 1 10 2,
              rest = [], retryCount = 0\<rparr>"
  let ?lv1 = "\<lparr>sessions = [mk_session 1 10 2],
              targetAgent = mk_agent [0x41] 1 False, session = mk_session 1 10 2,
              rest = [], retryCount = 0\<rparr>"
  note st = two_starting_state
  from st have r: "supervisor ?s = Running AwaitAll" by blast
  from st have w: "wallets ?s =
       [\<lparr>key = [0x41], status = Awaiting (Start ?lv0), stack = []\<rparr>,
        \<lparr>key = [0x42], status = Awaiting (Start ?lv1), stack = []\<rparr>]" by blast
  from st have c: "sessionCount (world ?s) = 5" by blast
  have i: "0 < length (wallets ?s)" and j: "1 < length (wallets ?s)"
    unfolding w by simp_all
  have ij: "(0::nat) \<noteq> 1" by simp
  have wi: "wallets ?s ! 0 = \<lparr>key = [0x41], status = Awaiting (Start ?lv0), stack = []\<rparr>"
    unfolding w by simp
  have wj: "wallets ?s ! 1 = \<lparr>key = [0x42], status = Awaiting (Start ?lv1), stack = []\<rparr>"
    unfolding w by simp
  have v: "truthy (Result True)" by simp
  have pos: "0 < remainingTime host0 23" "0 < remainingTime host0 24"
    by (rule remainingTime_host0_pos)+
  note t = two_pending_starts_pass_quota [OF r i j ij wi wj v v c pos]
  from t c show ?thesis by blast
qed

text \<open>
  When the agents of the wallet are not empty and none has the configured
  name, the iteration ends in the outer \<^verbatim>\<open>catch\<close>: the error "Target agent
  ... not found" is logged, the wallet waits 10000 ms, and when that wait
  resolves \<^verbatim>\<open>runWallet\<close> is called again; the promise of the wallet is not
  rejected.
\<close>

theorem target_agent_not_found_retries:
  assumes "agents \<noteq> []"
      and "find (\<lambda>a. name a = agentName (config h)) agents = None"
  shows "resume h now (Resolved v) k stk (GetFractalInfo agents ss) w =
           (\<lparr>key = k, status = Awaiting ErrorDelay, stack = stk\<rparr>,
            w\<lparr>trace := trace w @
                 [Display UpdateWallet, Display (UpdateAgents agents), Display UpdateFractalInfo,
                  Log (ErrorRetrying (TargetAgentNotFound (agentName (config h)))),
                  Call (Delay 10000 (ErrorRetryingMsg (TargetAgentNotFound (agentName (config h)))))]\<rparr>)
       \<and> resume h now' (Resolved v') k stk ErrorDelay w' = runWallet h now' k (Line167 # stk) w'"
  using assms by (simp add: after_hydrate_def outer_catch_describable emit_def)

theorem target_agent_not_found_retries_witness:
  "status (fst (resume host0 0 (Resolved Unit) [] []
                  (GetFractalInfo [mk_agent [0x42] 1 False] [mk_session 1 10 2]) (world0 0)))
     = Awaiting ErrorDelay"
proof -
  have a: "[mk_agent [0x42] 1 False] \<noteq> []" by simp
  have b: "find (\<lambda>a. name a = agentName (config host0)) [mk_agent [0x42] 1 False] = None"
    by (simp add: host0_def)
  from target_agent_not_found_retries [OF a b, where now = 0 and v = Unit and k = "[]" and stk = "[]"
              and ss = "[mk_session 1 10 2]" and w = "world0 0"]
  show ?thesis by simp
qed

end
